theory Spec2Isabelle
  imports Complex_Main "HOL-Library.AList"
begin

section \<open>Python values and library calls used by remio/camio.py\<close>

text \<open>
  The exceptions that the modelled code paths can raise. \<open>QueueEmpty\<close> is
  \<^verbatim>\<open>queue.Empty\<close> and \<open>Cv2Error\<close> is \<^verbatim>\<open>cv2.error\<close>; \<open>OtherError\<close> stands for any
  other exception of a library call or of the user's processing callable.
\<close>

datatype exn =
    RuntimeError | ValueError | AttributeError | ZeroDivisionError | QueueEmpty
  | OverflowError | MemoryError | OSError | Cv2Error | OtherError

text \<open>
  A call that waits on another thread has not returned yet. The waits of camio.py are
  \<^verbatim>\<open>Lock.acquire\<close>, \<^verbatim>\<open>Queue.put\<close> on a full queue, \<^verbatim>\<open>Queue.get\<close> on an empty
  queue without timeout, \<^verbatim>\<open>Event.wait\<close> on the pause event and \<^verbatim>\<open>Thread.join\<close>.
\<close>

datatype wait = WaitLock | WaitQueuePut | WaitQueueGet | WaitPause | WaitJoin

text \<open>
  The outcome of a call on a state of type \<open>'s\<close>: it returns a value, it raises (the
  state is the one the exception leaves behind), or it blocks (the state is the one at
  the wait).
\<close>

datatype ('a, 's) result = Return 'a | Raise exn 's | Block wait 's

fun bind :: "('a, 's) result \<Rightarrow> ('a \<Rightarrow> ('b, 's) result) \<Rightarrow> ('b, 's) result" where
  "bind (Return a) f = f a"
| "bind (Raise e s) f = Raise e s"
| "bind (Block w s) f = Block w s"

text \<open>The size argument is a Python list or a Python tuple of integers.\<close>

datatype pyseq = PyList "int list" | PyTuple "int list"

fun elems :: "pyseq \<Rightarrow> int list" where
  "elems (PyList xs) = xs"
| "elems (PyTuple xs) = xs"

text \<open>
  Images are kept symbolic: a frame delivered by the device (numbered by the
  environment), and terms for the images that numpy and cv2 calls produce.
\<close>

datatype ndarray =
    Captured nat
  | Zeros "int list"
  | PutText ndarray string "int \<times> int" int real "int list" int
  | Resize ndarray "int list"
  | Flip ndarray int

text \<open>
  The calls into numpy, cv2 and the clock are parameters of the model: for given
  arguments each returns a value or raises. \<open>lib_sleep\<close> tells whether \<^verbatim>\<open>time.sleep\<close>
  raises for a length inside the platform's time range, and \<open>lib_wait\<close> with which
  exception a timed wait on an empty queue ends when its length lies between
  \<^verbatim>\<open>threading.TIMEOUT_MAX\<close> and the next full second, where the platform decides.
\<close>

record library =
  lib_zeros :: "int list \<Rightarrow> exn + ndarray"
  lib_getTextSize :: "string \<Rightarrow> int \<Rightarrow> real \<Rightarrow> int \<Rightarrow> exn + int \<times> int"
  lib_putText :: "ndarray \<Rightarrow> string \<Rightarrow> int \<times> int \<Rightarrow> int \<Rightarrow> real \<Rightarrow> int list \<Rightarrow> int \<Rightarrow> exn + ndarray"
  lib_resize :: "ndarray \<Rightarrow> int list \<Rightarrow> exn + ndarray"
  lib_flip :: "ndarray \<Rightarrow> int \<Rightarrow> exn + ndarray"
  lib_sleep :: "real \<Rightarrow> exn option"
  lib_wait :: "real \<Rightarrow> exn"

text \<open>
  \<^verbatim>\<open>np.zeros(shape, dtype=np.uint8)\<close>: ValueError on a negative dimension and on a
  shape of positive dimensions with more than \<open>2^63 - 1\<close> elements; otherwise what the
  library answers (an array, or for instance MemoryError).
\<close>

definition np_zeros :: "library \<Rightarrow> int list \<Rightarrow> exn + ndarray" where
  "np_zeros l shape =
     (if list_ex (\<lambda>d. d < 0) shape then Inl ValueError
      else if list_all (\<lambda>d. 0 < d \<and> d < 2 ^ 63) shape \<and> 2 ^ 63 \<le> prod_list shape
      then Inl ValueError
      else lib_zeros l shape)"

text \<open>
  \<^verbatim>\<open>time.sleep(d)\<close>: ValueError on a negative length, OverflowError on a length of
  more than 9223372037 seconds (beyond \<open>2^63\<close> nanoseconds); otherwise the platform
  decides. \<open>None\<close> means that the call sleeps and returns. Floats are modelled by the
  reals they denote.
\<close>

definition time_sleep :: "library \<Rightarrow> real \<Rightarrow> exn option" where
  "time_sleep l d =
     (if d < 0 then Some ValueError
      else if 9223372037 < d then Some OverflowError
      else lib_sleep l d)"

text \<open>\<^verbatim>\<open>threading.TIMEOUT_MAX\<close> of CPython on a 64-bit POSIX platform.\<close>

definition TIMEOUT_MAX :: real where
  "TIMEOUT_MAX = 9223372036"

text \<open>Python's \<^verbatim>\<open>int(x)\<close> on a float truncates towards zero.\<close>

definition py_int :: "real \<Rightarrow> int" where
  "py_int x = (if x < 0 then \<lceil>x\<rceil> else \<lfloor>x\<rfloor>)"

text \<open>
  \<^verbatim>\<open>queue.Queue(maxsize)\<close>: a FIFO whose capacity is \<open>maxsize\<close> when that is positive
  and unbounded otherwise. Its items are values of \<^verbatim>\<open>self.frame\<close>.
\<close>

record pyqueue =
  maxsize :: int
  elements :: "ndarray option list"

definition full :: "pyqueue \<Rightarrow> bool" where
  "full q = (0 < maxsize q \<and> maxsize q \<le> int (length (elements q)))"

text \<open>The handle returned by \<^verbatim>\<open>cv2.VideoCapture(src)\<close>; only its open flag matters.\<close>

datatype VideoCapture = VideoCapture (isOpened: bool)

text \<open>
  What the environment answers to the thread's next calls: the outcome of
  \<^verbatim>\<open>cv2.VideoCapture(src)\<close> (a handle, or cv2.error) and of \<^verbatim>\<open>device.read()\<close>.
\<close>

datatype open_result = Opens VideoCapture | OpenFails

record world =
  w_open :: open_result
  w_read :: "bool \<times> ndarray"

section \<open>The Camera class\<close>

text \<open>\<^verbatim>\<open>src\<close> is a device index or a URI-like string.\<close>

datatype source = Index int | Uri string

text \<open>
  The thread object \<^verbatim>\<open>self.thread\<close>: created by the constructor and not started;
  started by \<^verbatim>\<open>Thread.start\<close> but not yet past the first two statements of
  \<^verbatim>\<open>run\<close>; at the test of the while loop of \<^verbatim>\<open>run\<close>; waiting inside
  \<^verbatim>\<open>readLock.acquire()\<close> (with the answer that \<^verbatim>\<open>device.read()\<close> will give once the lock
  is taken), inside \<^verbatim>\<open>queue.put(self.frame)\<close> or inside \<^verbatim>\<open>pauseEvent.wait()\<close>;
  finished.
\<close>

datatype thread_state =
    NotStarted | Spawned | Looping
  | InAcquire "bool \<times> ndarray" | InPut | InPauseWait
  | Exited

text \<open>
  What the thread running \<^verbatim>\<open>run\<close> does, in order. \<open>EvSet\<close> and \<open>EvClear\<close> are
  \<^verbatim>\<open>Event.set\<close> and \<^verbatim>\<open>Event.clear\<close>, \<open>EvAcquire\<close> and \<open>EvRelease\<close> act on
  \<^verbatim>\<open>readLock\<close>, \<open>EvOpen\<close> is \<^verbatim>\<open>cv2.VideoCapture(src)\<close>, \<open>EvSleep\<close> is
  \<^verbatim>\<open>time.sleep\<close>, \<open>EvRead\<close> is \<^verbatim>\<open>device.read()\<close> with its success flag,
  \<open>EvPut\<close> is \<^verbatim>\<open>queue.put\<close>, \<open>EvPauseWait\<close> is \<^verbatim>\<open>pauseEvent.wait()\<close>.
\<close>

datatype signal = RunningEvent | PauseEvent | ReadEvent

datatype event =
    EvSet signal
  | EvClear signal
  | EvAcquire
  | EvRelease
  | EvOpen
  | EvSleep real
  | EvRead bool
  | EvPut
  | EvPauseWait
  | EvDeviceRelease

datatype payload = FrameOf string "ndarray option" | NameOf string

type_synonym kwargs = "(string \<times> int) list"

text \<open>
  The attributes of a Camera object, the libraries it calls (\<open>lib\<close>), and two
  records of what happened: the events emitted and the trace of the thread.
\<close>

record camera =
  src :: source
  name :: string
  frame :: "ndarray option"
  fps :: "int option"
  verbose :: bool
  size_cfg :: "pyseq option"
  flipX :: bool
  flipY :: bool
  backgroundIsEnabled :: bool
  background :: "ndarray option"
  processing :: "(ndarray \<Rightarrow> kwargs \<Rightarrow> exn + ndarray) option"
  processingParams :: "kwargs option"
  queueModeEnabled :: bool
  queue :: pyqueue
  frame64 :: "string option"
  encoderIsEnabled :: bool
  delay :: real
  defaultDelay :: real
  reconnectDelay :: real
  defaultSize :: "int list"
  emitterIsEnabled :: bool
  device :: "VideoCapture option"
  thread :: thread_state
  running :: bool
  pauseEvent :: bool
  readEvent :: bool
  readLock :: bool
  lib :: library
  emitted :: "(string \<times> payload) list"
  trace :: "event list"

text \<open>The keyword arguments of \<^verbatim>\<open>Camera.__init__\<close> other than \<^verbatim>\<open>name\<close>.\<close>

record settings =
  kw_src :: source
  kw_reconnectDelay :: real
  kw_fps :: "int option"
  kw_verbose :: bool
  kw_size :: "pyseq option"
  kw_flipX :: bool
  kw_flipY :: bool
  kw_emitterIsEnabled :: bool
  kw_backgroundIsEnabled :: bool
  kw_queueModeEnabled :: bool
  kw_queueMaxSize :: int
  kw_text :: string
  kw_font :: int
  kw_fontScale :: real
  kw_fontColor :: "int list"
  kw_thickness :: int
  kw_processing :: "(ndarray \<Rightarrow> kwargs \<Rightarrow> exn + ndarray) option"
  kw_processingParams :: "kwargs option"
  kw_encoderIsEnabled :: bool

definition FONT_HERSHEY_SIMPLEX :: int where
  "FONT_HERSHEY_SIMPLEX = 0"

definition FONT_HERSHEY_COMPLEX :: int where
  "FONT_HERSHEY_COMPLEX = 3"

text \<open>The defaults of \<^verbatim>\<open>Camera.__init__\<close>.\<close>

definition default_settings :: settings where
  "default_settings =
     \<lparr> kw_src = Index 0, kw_reconnectDelay = 5, kw_fps = Some 10, kw_verbose = False,
       kw_size = None, kw_flipX = False, kw_flipY = False, kw_emitterIsEnabled = False,
       kw_backgroundIsEnabled = False, kw_queueModeEnabled = False, kw_queueMaxSize = 96,
       kw_text = ''Device not available'', kw_font = FONT_HERSHEY_SIMPLEX,
       kw_fontScale = 1 / 2, kw_fontColor = [255, 255, 255], kw_thickness = 1,
       kw_processing = None, kw_processingParams = Some [], kw_encoderIsEnabled = True \<rparr>"

definition log :: "event \<Rightarrow> camera \<Rightarrow> camera" where
  "log e s = s\<lparr>trace := trace s @ [e]\<rparr>"

text \<open>
  Modelled from the spec: \<^verbatim>\<open>Emitter.emit\<close> of remio/sevent.py, which is not among the
  sources. The spec's event notifier emits a named event with a payload; the model
  records the emission.
\<close>

definition emit :: "camera \<Rightarrow> string \<Rightarrow> payload \<Rightarrow> camera" where
  "emit s ev p = s\<lparr>emitted := emitted s @ [(ev, p)]\<rparr>"

definition createBackground ::
  "camera \<Rightarrow> string \<Rightarrow> int \<Rightarrow> real \<Rightarrow> int list \<Rightarrow> int \<Rightarrow> pyseq option \<Rightarrow> exn + ndarray" where
  "createBackground s text font fontScale fontColor thickness size0 =
     (let size1 = (case size0 of None \<Rightarrow> PyList (defaultSize s) | Some z \<Rightarrow> z) in
      case (if length (elems size1) = 2
            then (case size1 of
                    PyList xs \<Rightarrow> Inr (PyList (rev xs @ [3]))
                  | PyTuple xs \<Rightarrow> Inl AttributeError)
            else Inr size1) of
        Inl e \<Rightarrow> Inl e
      | Inr size2 \<Rightarrow>
          (case np_zeros (lib s) (elems size2) of
             Inl e \<Rightarrow> Inl e
           | Inr background0 \<Rightarrow>
               (case lib_getTextSize (lib s) text font fontScale thickness of
                  Inl e \<Rightarrow> Inl e
                | Inr (tw, th) \<Rightarrow>
                    (case elems size2 of
                       [h, w, c] \<Rightarrow>
                         lib_putText (lib s) background0 text
                           (py_int (real_of_int (w - tw) / 2), py_int (real_of_int (h - th) / 2))
                           font fontScale fontColor thickness
                     | _ \<Rightarrow> Inl ValueError))))"

definition enableBackground ::
  "camera \<Rightarrow> string \<Rightarrow> int \<Rightarrow> real \<Rightarrow> int list \<Rightarrow> int \<Rightarrow> pyseq option
     \<Rightarrow> (camera, camera) result" where
  "enableBackground s text font fontScale fontColor thickness size0 =
     (let s1 = s\<lparr>backgroundIsEnabled := True\<rparr> in
      case createBackground s1 text font fontScale fontColor thickness size0 of
        Inl e \<Rightarrow> Raise e s1
      | Inr b \<Rightarrow> Return (s1\<lparr>background := Some b\<rparr>))"

definition disableBackground :: "camera \<Rightarrow> camera" where
  "disableBackground s = s\<lparr>backgroundIsEnabled := False, background := None\<rparr>"

definition resume :: "camera \<Rightarrow> camera" where
  "resume s = s\<lparr>pauseEvent := True\<rparr>"

definition pause :: "camera \<Rightarrow> camera" where
  "pause s = s\<lparr>pauseEvent := False\<rparr>"

definition setPause :: "camera \<Rightarrow> bool \<Rightarrow> camera" where
  "setPause s v = (if v then pause s else resume s)"

text \<open>
  The constructor, in a process whose libraries are \<open>l\<close>. \<^verbatim>\<open>1 / self.fps\<close> raises
  ZeroDivisionError for \<^verbatim>\<open>fps = 0\<close>; an exception of \<^verbatim>\<open>enableBackground\<close> leaves the
  constructor. No object is returned then.
\<close>

definition init :: "library \<Rightarrow> string \<Rightarrow> settings \<Rightarrow> (camera, unit) result" where
  "init l nm st =
     (if kw_fps st = Some 0 then Raise ZeroDivisionError ()
      else
        let s = \<lparr> src = kw_src st, name = nm, frame = None, fps = kw_fps st,
                  verbose = kw_verbose st, size_cfg = kw_size st, flipX = kw_flipX st,
                  flipY = kw_flipY st, backgroundIsEnabled = kw_backgroundIsEnabled st,
                  background = None, processing = kw_processing st,
                  processingParams = kw_processingParams st,
                  queueModeEnabled = kw_queueModeEnabled st,
                  queue = \<lparr> maxsize = kw_queueMaxSize st, elements = [] \<rparr>,
                  frame64 = None, encoderIsEnabled = kw_encoderIsEnabled st,
                  delay = (case kw_fps st of Some f \<Rightarrow> 1 / real_of_int f | None \<Rightarrow> 1 / 10),
                  defaultDelay = (case kw_fps st of Some f \<Rightarrow> 1 / real_of_int f | None \<Rightarrow> 1 / 10),
                  reconnectDelay = kw_reconnectDelay st, defaultSize = [720, 1280, 3],
                  emitterIsEnabled = kw_emitterIsEnabled st, device = None,
                  thread = NotStarted, running = False, pauseEvent = False,
                  readEvent = False, readLock = False, lib = l, emitted = [], trace = [] \<rparr>;
            s1 = resume s
        in if backgroundIsEnabled s1
           then (case enableBackground s1 (kw_text st) (kw_font st) (kw_fontScale st)
                        (kw_fontColor st) (kw_thickness st) (size_cfg s1) of
                   Return s2 \<Rightarrow> Return s2
                 | Raise e s2 \<Rightarrow> Raise e ()
                 | Block w s2 \<Rightarrow> Block w ())
           else Return s1)"

definition sleep :: "real \<Rightarrow> camera \<Rightarrow> (camera, camera) result" where
  "sleep d s =
     (case time_sleep (lib s) d of
        Some e \<Rightarrow> Raise e s
      | None \<Rightarrow> Return (log (EvSleep d) s))"

text \<open>
  \<^verbatim>\<open>Thread.start\<close> raises RuntimeError when the thread object was started before.
\<close>

definition start :: "camera \<Rightarrow> (camera, camera) result" where
  "start s =
     (case thread s of
        NotStarted \<Rightarrow> Return (s\<lparr>thread := Spawned\<rparr>)
      | _ \<Rightarrow> Raise RuntimeError s)"

definition getProcessingParams :: "camera \<Rightarrow> kwargs \<times> camera" where
  "getProcessingParams s =
     (case processingParams s of
        None \<Rightarrow> ([], s\<lparr>processingParams := Some []\<rparr>)
      | Some kw \<Rightarrow> (kw, s))"

definition hasProcessing :: "camera \<Rightarrow> bool" where
  "hasProcessing s = (processing s \<noteq> None)"

definition isConnected :: "camera \<Rightarrow> bool" where
  "isConnected s = (case device s of Some d \<Rightarrow> isOpened d | None \<Rightarrow> False)"

definition loadDevice :: "camera \<Rightarrow> open_result \<Rightarrow> camera" where
  "loadDevice s r =
     (case r of
        Opens d \<Rightarrow> log EvOpen (s\<lparr>device := Some d\<rparr>)
      | OpenFails \<Rightarrow> log EvOpen s)"

definition reconnect :: "camera \<Rightarrow> open_result \<Rightarrow> (camera, camera) result" where
  "reconnect s r =
     (let s1 = log (EvClear ReadEvent) (s\<lparr>readEvent := False\<rparr>);
          s2 = loadDevice s1 r
      in bind (sleep (reconnectDelay s2) s2)
           (\<lambda>s3. Return (log (EvSet ReadEvent) (s3\<lparr>readEvent := True\<rparr>))))"

definition needAPause :: "camera \<Rightarrow> (camera, camera) result" where
  "needAPause s =
     (let s1 = log EvPauseWait s in if pauseEvent s1 then Return s1 else Block WaitPause s1)"

text \<open>\<^verbatim>\<open>cv2.resize\<close> and \<^verbatim>\<open>cv2.flip\<close> may raise; the exception leaves \<^verbatim>\<open>preprocess\<close>.\<close>

definition preprocess :: "camera \<Rightarrow> ndarray \<Rightarrow> exn + ndarray" where
  "preprocess s frame0 =
     (case (case size_cfg s of
              Some z \<Rightarrow> lib_resize (lib s) frame0 (take 2 (elems z))
            | None \<Rightarrow> Inr frame0) of
        Inl e \<Rightarrow> Inl e
      | Inr frame1 \<Rightarrow>
          (case (if flipX s then lib_flip (lib s) frame1 1 else Inr frame1) of
             Inl e \<Rightarrow> Inl e
           | Inr frame2 \<Rightarrow> (if flipY s then lib_flip (lib s) frame2 0 else Inr frame2)))"

text \<open>The user's processing callable may raise, after the parameters were fetched.\<close>

definition process :: "camera \<Rightarrow> ndarray \<Rightarrow> (ndarray \<times> camera, camera) result" where
  "process s frame0 =
     (case processing s of
        Some f \<Rightarrow>
          (case getProcessingParams s of
             (kw, s1) \<Rightarrow>
               (case f frame0 kw of
                  Inl e \<Rightarrow> Raise e s1
                | Inr frame1 \<Rightarrow> Return (frame1, s1)))
      | None \<Rightarrow> Return (frame0, s))"

text \<open>
  \<^verbatim>\<open>Queue.put(item)\<close> with its defaults \<^verbatim>\<open>block=True, timeout=None\<close>: it waits for a
  free slot while the queue is full.
\<close>

definition put :: "camera \<Rightarrow> ndarray option \<Rightarrow> (camera, camera) result" where
  "put s x =
     (if full (queue s) then Block WaitQueuePut s
      else Return (log EvPut (s\<lparr>queue := (queue s)\<lparr>elements := elements (queue s) @ [x]\<rparr>\<rparr>)))"

text \<open>
  \<^verbatim>\<open>Queue.get(timeout=timeout)\<close> with \<^verbatim>\<open>block=True\<close>, while no producer step runs.
  Without a timeout it waits for an item. A negative timeout raises ValueError. With an
  item queued it returns the oldest one. On an empty queue it raises \<^verbatim>\<open>queue.Empty\<close>
  at the deadline; a timeout beyond the range of the platform's timed waits raises
  OverflowError instead.
\<close>

definition get :: "camera \<Rightarrow> real option \<Rightarrow> (ndarray option \<times> camera, camera) result" where
  "get s timeout =
     (case timeout of
        None \<Rightarrow>
          (case elements (queue s) of
             [] \<Rightarrow> Block WaitQueueGet s
           | x # xs \<Rightarrow> Return (x, s\<lparr>queue := (queue s)\<lparr>elements := xs\<rparr>\<rparr>))
      | Some t \<Rightarrow>
          if t < 0 then Raise ValueError s
          else (case elements (queue s) of
                  [] \<Rightarrow>
                    if t \<le> TIMEOUT_MAX then Raise QueueEmpty s
                    else if TIMEOUT_MAX + 1 < t then Raise OverflowError s
                    else Raise (lib_wait (lib s) t) s
                | x # xs \<Rightarrow> Return (x, s\<lparr>queue := (queue s)\<lparr>elements := xs\<rparr>\<rparr>)))"

text \<open>
  \<^verbatim>\<open>update\<close>, given what \<^verbatim>\<open>device.read()\<close> answers, in the pieces between its waits.
  \<open>finish\<close> is its end, from \<^verbatim>\<open>self.readEvent.set()\<close> on. \<open>publish\<close> is the body of
  \<^verbatim>\<open>if deviceIsAvailable:\<close> up to \<^verbatim>\<open>self.queue.put(self.frame)\<close>; the two lines that would
  encode the frame into \<^verbatim>\<open>frame64\<close> are commented out in the source, so nothing here
  assigns \<^verbatim>\<open>frame64\<close>. \<open>acquired\<close> is \<^verbatim>\<open>update\<close> from the return of
  \<^verbatim>\<open>self.readLock.acquire()\<close> on.
\<close>

definition finish :: "camera \<Rightarrow> (camera, camera) result" where
  "finish s =
     (let s1 = log (EvSet ReadEvent) (s\<lparr>readEvent := True\<rparr>)
      in Return (if readLock s1 then log EvRelease (s1\<lparr>readLock := False\<rparr>) else s1))"

definition publish :: "camera \<Rightarrow> ndarray \<Rightarrow> (camera, camera) result" where
  "publish s frame0 =
     (case preprocess s frame0 of
        Inl e \<Rightarrow> Raise e s
      | Inr frame1 \<Rightarrow>
          bind (process s frame1)
            (\<lambda>(frame2, s1).
               let s2 = s1\<lparr>frame := Some frame2\<rparr>;
                   s3 = (if emitterIsEnabled s2
                         then emit (emit s2 ''frame-ready'' (FrameOf (name s2) (frame s2)))
                                ''frame-available'' (NameOf (name s2))
                         else s2)
               in if queueModeEnabled s3 then put s3 (frame s3) else Return s3))"

definition acquired :: "camera \<Rightarrow> bool \<times> ndarray \<Rightarrow> (camera, camera) result" where
  "acquired s r =
     (let s1 = log EvAcquire (s\<lparr>readLock := True\<rparr>) in
      case device s1 of
        None \<Rightarrow> Raise AttributeError s1
      | Some d \<Rightarrow>
          let s2 = log (EvRead (fst r)) s1
          in bind (if fst r then publish s2 (snd r) else Return s2) finish)"

definition update :: "camera \<Rightarrow> bool \<times> ndarray \<Rightarrow> (camera, camera) result" where
  "update s r =
     (let s1 = log (EvClear ReadEvent) (s\<lparr>readEvent := False\<rparr>)
      in if readLock s1 then Block WaitLock s1 else acquired s1 r)"

definition read :: "camera \<Rightarrow> real option \<Rightarrow> (ndarray option \<times> camera, camera) result" where
  "read s timeout =
     (if isConnected s
      then (if queueModeEnabled s then get s timeout else Return (frame s, s))
      else Return (background s, s))"

definition applyDelay :: "camera \<Rightarrow> (camera, camera) result" where
  "applyDelay s = (if fps s \<noteq> None then sleep (delay s) s else Return s)"

definition getName :: "camera \<Rightarrow> string" where
  "getName s = name s"

definition getFrame :: "camera \<Rightarrow> ndarray option" where
  "getFrame s = frame s"

definition getFrame64 :: "camera \<Rightarrow> string option" where
  "getFrame64 s = frame64 s"

definition setSpeed :: "camera \<Rightarrow> int option \<Rightarrow> (camera, camera) result" where
  "setSpeed s fps0 =
     (let s1 = s\<lparr>fps := fps0\<rparr> in
      case fps s1 of
        None \<Rightarrow> Return s1
      | Some f \<Rightarrow>
          if f = 0 then Raise ZeroDivisionError s1
          else Return (s1\<lparr>defaultDelay := 1 / real_of_int f, delay := 1 / real_of_int f\<rparr>))"

subsection \<open>The thread that executes run\<close>

text \<open>
  \<^verbatim>\<open>run\<close> is executed by \<^verbatim>\<open>self.thread\<close>, concurrently with the callers of the other
  methods. Its execution is cut into steps: the two statements before the loop; one
  pass through the body of the while loop, up to the next test of the loop or to a wait;
  the rest of a pass after a wait; the three statements after the loop. The \<open>world\<close> of
  a step is what the environment answers during it.
\<close>

definition run_enter :: "camera \<Rightarrow> open_result \<Rightarrow> camera" where
  "run_enter s r = log (EvSet RunningEvent) ((loadDevice s r)\<lparr>running := True\<rparr>)"

text \<open>The first statement of the loop body: one acquisition attempt.\<close>

definition attempt :: "camera \<Rightarrow> world \<Rightarrow> (camera, camera) result" where
  "attempt s w = (if isConnected s then update s (w_read w) else reconnect s (w_open w))"

definition iteration :: "camera \<Rightarrow> world \<Rightarrow> (camera, camera) result" where
  "iteration s w = bind (bind (attempt s w) applyDelay) needAPause"

definition run_exit :: "camera \<Rightarrow> (camera, camera) result" where
  "run_exit s =
     (let s1 = log (EvSet ReadEvent) (s\<lparr>queueModeEnabled := False, readEvent := True\<rparr>) in
      case device s1 of
        None \<Rightarrow> Raise AttributeError s1
      | Some d \<Rightarrow> Return (log EvDeviceRelease (s1\<lparr>device := Some (VideoCapture False)\<rparr>)))"

text \<open>An exception that leaves \<^verbatim>\<open>run\<close> ends the thread; so does returning from it.\<close>

fun ends :: "(camera, camera) result \<Rightarrow> (camera, camera) result" where
  "ends (Return s) = Return (s\<lparr>thread := Exited\<rparr>)"
| "ends (Raise e s) = Raise e (s\<lparr>thread := Exited\<rparr>)"
| "ends (Block w s) = Block w s"

text \<open>
  Where the thread is after a pass through the loop body: back at the test of the loop
  when the pass returned, finished when it raised, and inside the wait when it blocked
  (\<open>t\<close> is where it is when the wait is for the lock).
\<close>

fun parks :: "thread_state \<Rightarrow> (camera, camera) result \<Rightarrow> (camera, camera) result" where
  "parks t (Return s) = Return (s\<lparr>thread := Looping\<rparr>)"
| "parks t (Raise e s) = Raise e (s\<lparr>thread := Exited\<rparr>)"
| "parks t (Block w s) =
     Block w (s\<lparr>thread := (case w of
                              WaitLock \<Rightarrow> t
                            | WaitQueuePut \<Rightarrow> InPut
                            | WaitPause \<Rightarrow> InPauseWait
                            | _ \<Rightarrow> thread s)\<rparr>)"

text \<open>The rest of a pass through the loop body, for a thread inside a wait.\<close>

definition wakes :: "camera \<Rightarrow> (camera, camera) result" where
  "wakes s =
     (case thread s of
        InAcquire r \<Rightarrow>
          if readLock s then Block WaitLock s
          else bind (bind (acquired s r) applyDelay) needAPause
      | InPut \<Rightarrow> bind (bind (bind (put s (frame s)) finish) applyDelay) needAPause
      | InPauseWait \<Rightarrow> if pauseEvent s then Return s else Block WaitPause s
      | _ \<Rightarrow> Return s)"

text \<open>One step of the thread. A thread that is not started or has finished does nothing.\<close>

definition run :: "camera \<Rightarrow> world \<Rightarrow> (camera, camera) result" where
  "run s w =
     (case thread s of
        NotStarted \<Rightarrow> Return s
      | Spawned \<Rightarrow> Return ((run_enter s (w_open w))\<lparr>thread := Looping\<rparr>)
      | Looping \<Rightarrow>
          if running s then parks (InAcquire (w_read w)) (iteration s w)
          else ends (run_exit s)
      | Exited \<Rightarrow> Return s
      | _ \<Rightarrow> parks (thread s) (wakes s))"

text \<open>Consecutive steps of the thread, with no other call in between.\<close>

fun runs :: "camera \<Rightarrow> world list \<Rightarrow> (camera, camera) result" where
  "runs s [] = Return s"
| "runs s (w # ws) = bind (run s w) (\<lambda>s'. runs s' ws)"

text \<open>
  \<^verbatim>\<open>Thread.join\<close>: RuntimeError on a thread that was not started. Otherwise the caller
  waits until the thread has finished (an exception of the thread is not raised in the
  caller). A thread at the test of the loop leaves the loop when \<^verbatim>\<open>running\<close> is cleared
  and loops on when it is set; a thread inside a wait first has to get out of it; a
  thread that has not entered the loop yet will set \<^verbatim>\<open>running\<close> and loop.
\<close>

definition leaves :: "camera \<Rightarrow> (camera, camera) result" where
  "leaves s =
     (if running s then Block WaitJoin s
      else (case ends (run_exit s) of
              Return s1 \<Rightarrow> Return s1
            | Raise e s1 \<Rightarrow> Return s1
            | Block w s1 \<Rightarrow> Block WaitJoin s1))"

definition join :: "camera \<Rightarrow> (camera, camera) result" where
  "join s =
     (case thread s of
        NotStarted \<Rightarrow> Raise RuntimeError s
      | Spawned \<Rightarrow> Block WaitJoin s
      | Looping \<Rightarrow> leaves s
      | Exited \<Rightarrow> Return s
      | _ \<Rightarrow>
          (case parks (thread s) (wakes s) of
             Return s1 \<Rightarrow> leaves s1
           | Raise e s1 \<Rightarrow> Return s1
           | Block w s1 \<Rightarrow> Block WaitJoin s1))"

definition stop :: "camera \<Rightarrow> (camera, camera) result" where
  "stop s =
     (let s1 = resume s;
          s2 = (if readLock s1 then s1\<lparr>readLock := False\<rparr> else s1)
      in if running s2 then join (s2\<lparr>running := False\<rparr>) else Return s2)"

fun stops :: "nat \<Rightarrow> camera \<Rightarrow> (camera, camera) result" where
  "stops 0 s = Return s"
| "stops (Suc n) s = bind (stop s) (stops n)"

section \<open>The Cameras class\<close>

text \<open>
  \<^verbatim>\<open>self.devices\<close> is a dict from names to Camera objects, kept in insertion order. A
  method called on a member changes that member in place.
\<close>

record cameras =
  devices :: "(string \<times> camera) list"

fun write_back :: "cameras \<Rightarrow> string \<Rightarrow> (camera, camera) result \<Rightarrow> (cameras, cameras) result" where
  "write_back r n (Return d) = Return (r\<lparr>devices := AList.update n d (devices r)\<rparr>)"
| "write_back r n (Raise e d) = Raise e (r\<lparr>devices := AList.update n d (devices r)\<rparr>)"
| "write_back r n (Block w d) = Block w (r\<lparr>devices := AList.update n d (devices r)\<rparr>)"

definition startOnly :: "cameras \<Rightarrow> string \<Rightarrow> (cameras, cameras) result" where
  "startOnly r deviceName =
     (case map_of (devices r) deviceName of
        Some d \<Rightarrow> write_back r deviceName (start d)
      | None \<Rightarrow> Return r)"

definition stopOnly :: "cameras \<Rightarrow> string \<Rightarrow> (cameras, cameras) result" where
  "stopOnly r deviceName =
     (case map_of (devices r) deviceName of
        Some d \<Rightarrow> write_back r deviceName (stop d)
      | None \<Rightarrow> Return r)"

definition getDevice :: "cameras \<Rightarrow> string \<Rightarrow> camera option" where
  "getDevice r deviceName =
     (case map_of (devices r) deviceName of
        Some d \<Rightarrow> Some d
      | None \<Rightarrow> None)"

definition pauseOnly :: "cameras \<Rightarrow> string \<Rightarrow> (cameras, cameras) result" where
  "pauseOnly r deviceName =
     (case map_of (devices r) deviceName of
        Some d \<Rightarrow> write_back r deviceName (Return (pause d))
      | None \<Rightarrow> Return r)"

definition resumeOnly :: "cameras \<Rightarrow> string \<Rightarrow> (cameras, cameras) result" where
  "resumeOnly r deviceName =
     (case map_of (devices r) deviceName of
        Some d \<Rightarrow> write_back r deviceName (Return (resume d))
      | None \<Rightarrow> Return r)"

definition setSpeedOnly :: "cameras \<Rightarrow> string \<Rightarrow> int option \<Rightarrow> (cameras, cameras) result" where
  "setSpeedOnly r deviceName fps0 =
     (case map_of (devices r) deviceName of
        Some d \<Rightarrow> write_back r deviceName (setSpeed d fps0)
      | None \<Rightarrow> Return r)"

definition getFrameOf :: "cameras \<Rightarrow> string \<Rightarrow> ndarray option" where
  "getFrameOf r deviceName =
     (case map_of (devices r) deviceName of
        Some d \<Rightarrow> getFrame d
      | None \<Rightarrow> None)"

section \<open>Example devices\<close>

text \<open>
  Libraries for the examples: every call that the definitions above leave to the
  library gives its image, and the clock accepts the length. The examples call them
  with a 480 by 640 image, the default text and sleeps of a few seconds only.
\<close>

definition sample_lib :: library where
  "sample_lib =
     \<lparr> lib_zeros = (\<lambda>shape. Inr (Zeros shape)),
       lib_getTextSize = (\<lambda>text font fontScale thickness. Inr (200, 20)),
       lib_putText = (\<lambda>img text org font fontScale color thickness.
                        Inr (PutText img text org font fontScale color thickness)),
       lib_resize = (\<lambda>img dsize. Inr (Resize img dsize)),
       lib_flip = (\<lambda>img code. Inr (Flip img code)),
       lib_sleep = (\<lambda>d. None),
       lib_wait = (\<lambda>t. QueueEmpty) \<rparr>"

text \<open>
  \<^verbatim>\<open>Camera(src=0)\<close>, the device that tests/camera/test_camera.py builds in its setUp,
  and the states it goes through when it is started and its handle opens.
\<close>

definition test_camera :: camera where
  "test_camera =
     \<lparr> src = Index 0, name = ''default'', frame = None, fps = Some 10, verbose = False,
       size_cfg = None, flipX = False, flipY = False, backgroundIsEnabled = False,
       background = None, processing = None, processingParams = Some [],
       queueModeEnabled = False, queue = \<lparr> maxsize = 96, elements = [] \<rparr>,
       frame64 = None, encoderIsEnabled = True, delay = 1 / 10, defaultDelay = 1 / 10,
       reconnectDelay = 5, defaultSize = [720, 1280, 3], emitterIsEnabled = False,
       device = None, thread = NotStarted, running = False, pauseEvent = True,
       readEvent = False, readLock = False, lib = sample_lib, emitted = [], trace = [] \<rparr>"

definition started_camera :: camera where
  "started_camera = test_camera\<lparr>thread := Spawned\<rparr>"

definition running_camera :: camera where
  "running_camera =
     test_camera\<lparr>device := Some (VideoCapture True), thread := Looping, running := True,
       trace := [EvOpen, EvSet RunningEvent]\<rparr>"

text \<open>The environment of a step in which the handle opens and delivers frame \<open>n\<close>.\<close>

definition delivers :: "nat \<Rightarrow> world" where
  "delivers n = \<lparr> w_open = Opens (VideoCapture True), w_read = (True, Captured n) \<rparr>"

text \<open>The environment of a step in which the handle does not open and reads fail.\<close>

definition unplugged :: world where
  "unplugged = \<lparr> w_open = Opens (VideoCapture False), w_read = (False, Captured 0) \<rparr>"

text \<open>
  \<^verbatim>\<open>Camera(src=0, queueModeEnabled=True, queueMaxSize=k)\<close>, started, with its handle
  open.
\<close>

definition queue_camera :: "int \<Rightarrow> camera" where
  "queue_camera k =
     running_camera\<lparr>queueModeEnabled := True, queue := \<lparr> maxsize = k, elements = [] \<rparr>\<rparr>"

text \<open>\<^verbatim>\<open>Camera(src=0, fps=None)\<close>, started, with its handle open.\<close>

definition unthrottled_camera :: camera where
  "unthrottled_camera = running_camera\<lparr>fps := None\<rparr>"

text \<open>
  \<^verbatim>\<open>Camera(src=0, reconnectDelay=-1)\<close>, started, with a handle that did not open.
\<close>

definition hasty_camera :: camera where
  "hasty_camera =
     test_camera\<lparr>reconnectDelay := - 1, device := Some (VideoCapture False),
       thread := Looping, running := True, trace := [EvOpen, EvSet RunningEvent]\<rparr>"

text \<open>\<^verbatim>\<open>Camera(src=0)\<close>, started, with a handle that did not open.\<close>

definition retrying_camera :: camera where
  "retrying_camera =
     test_camera\<lparr>device := Some (VideoCapture False), thread := Looping, running := True,
       trace := [EvOpen, EvSet RunningEvent]\<rparr>"

section \<open>Notions used by the statements\<close>

text \<open>The state in which a call ended, whatever its outcome.\<close>

fun state_of :: "('s, 's) result \<Rightarrow> 's" where
  "state_of (Return s) = s"
| "state_of (Raise e s) = s"
| "state_of (Block w s) = s"


text \<open>A step of the environment in which \<^verbatim>\<open>device.read()\<close> succeeds.\<close>

definition read_ok :: "world \<Rightarrow> bool" where
  "read_ok w = fst (w_read w)"

text \<open>
  The frame that \<^verbatim>\<open>device.read()\<close> delivers in this step passes \<^verbatim>\<open>preprocess\<close> and the
  processing callable: neither cv2 nor the callable raises on it.
\<close>

definition frame_ok :: "camera \<Rightarrow> world \<Rightarrow> bool" where
  "frame_ok s w =
     (case preprocess s (snd (w_read w)) of
        Inl e \<Rightarrow> False
      | Inr frame1 \<Rightarrow>
          (case process s frame1 of
             Return p \<Rightarrow> True
           | Raise e s1 \<Rightarrow> False
           | Block b s1 \<Rightarrow> False))"

text \<open>\<^verbatim>\<open>time.sleep\<close> accepts the length: it sleeps and returns.\<close>

definition sleeps :: "camera \<Rightarrow> real \<Rightarrow> bool" where
  "sleeps s d = (time_sleep (lib s) d = None)"


text \<open>
  Two states agree in what the steps of the loop read but do not write: the libraries,
  the settings and the signals set by other threads.
\<close>

definition same_setup :: "camera \<Rightarrow> camera \<Rightarrow> bool" where
  "same_setup s u =
     (lib u = lib s \<and> size_cfg u = size_cfg s \<and> flipX u = flipX s \<and> flipY u = flipY s
      \<and> processing u = processing s
      \<and> (case processingParams u of None \<Rightarrow> [] | Some kw \<Rightarrow> kw)
        = (case processingParams s of None \<Rightarrow> [] | Some kw \<Rightarrow> kw)
      \<and> emitterIsEnabled u = emitterIsEnabled s \<and> queueModeEnabled u = queueModeEnabled s
      \<and> maxsize (queue u) = maxsize (queue s)
      \<and> fps u = fps s \<and> delay u = delay s \<and> reconnectDelay u = reconnectDelay s
      \<and> frame64 u = frame64 s \<and> running u = running s \<and> pauseEvent u = pauseEvent s)"

section \<open>The example devices are the ones the code builds\<close>

lemmas step_defs = run_def iteration_def attempt_def isConnected_def update_def acquired_def
  publish_def finish_def reconnect_def loadDevice_def log_def Let_def preprocess_def process_def
  getProcessingParams_def emit_def put_def full_def applyDelay_def sleep_def time_sleep_def
  needAPause_def

lemma init_test_camera: "init sample_lib ''default'' default_settings = Return test_camera"
  by (simp add: init_def default_settings_def test_camera_def resume_def Let_def)

lemma start_test_camera: "start test_camera = Return started_camera"
  by (simp add: start_def test_camera_def started_camera_def)

lemma run_started_camera: "run started_camera (delivers n) = Return running_camera"
  by (simp add: run_def started_camera_def running_camera_def test_camera_def delivers_def
      run_enter_def loadDevice_def log_def)

lemma queue_camera_built:
  "init sample_lib ''default''
       (default_settings\<lparr>kw_queueModeEnabled := True, kw_queueMaxSize := k\<rparr>)
     = Return (test_camera\<lparr>queueModeEnabled := True, queue := \<lparr>maxsize = k, elements = []\<rparr>\<rparr>)
   \<and> start (test_camera\<lparr>queueModeEnabled := True, queue := \<lparr>maxsize = k, elements = []\<rparr>\<rparr>)
     = Return (test_camera\<lparr>queueModeEnabled := True, queue := \<lparr>maxsize = k, elements = []\<rparr>,
                 thread := Spawned\<rparr>)
   \<and> run (test_camera\<lparr>queueModeEnabled := True, queue := \<lparr>maxsize = k, elements = []\<rparr>,
                 thread := Spawned\<rparr>) (delivers n)
     = Return (queue_camera k)"
  by (simp add: init_def default_settings_def test_camera_def resume_def Let_def start_def
      queue_camera_def running_camera_def delivers_def run_def run_enter_def loadDevice_def log_def)

lemma unthrottled_camera_built:
  "init sample_lib ''default'' (default_settings\<lparr>kw_fps := None\<rparr>)
     = Return (test_camera\<lparr>fps := None\<rparr>)
   \<and> start (test_camera\<lparr>fps := None\<rparr>) = Return (test_camera\<lparr>fps := None, thread := Spawned\<rparr>)
   \<and> run (test_camera\<lparr>fps := None, thread := Spawned\<rparr>) (delivers n)
     = Return unthrottled_camera"
  by (simp add: init_def default_settings_def test_camera_def resume_def Let_def start_def
      unthrottled_camera_def running_camera_def delivers_def run_def run_enter_def loadDevice_def
      log_def)

lemma retrying_camera_built: "run started_camera unplugged = Return retrying_camera"
  by (simp add: started_camera_def test_camera_def retrying_camera_def unplugged_def run_def
      run_enter_def loadDevice_def log_def)

lemma hasty_camera_built:
  "init sample_lib ''default'' (default_settings\<lparr>kw_reconnectDelay := - 1\<rparr>)
     = Return (test_camera\<lparr>reconnectDelay := - 1\<rparr>)
   \<and> start (test_camera\<lparr>reconnectDelay := - 1\<rparr>)
     = Return (test_camera\<lparr>reconnectDelay := - 1, thread := Spawned\<rparr>)
   \<and> run (test_camera\<lparr>reconnectDelay := - 1, thread := Spawned\<rparr>) unplugged
     = Return hasty_camera"
  by (simp add: init_def default_settings_def test_camera_def resume_def Let_def start_def
      hasty_camera_def unplugged_def run_def run_enter_def loadDevice_def log_def)

section \<open>Starting a device\<close>

text \<open>
  C1, as the code has it: on a device whose thread was started before (in particular one
  whose control loop is running), \<^verbatim>\<open>start()\<close> raises RuntimeError, because
  \<^verbatim>\<open>Thread.start\<close> refuses a second start. It spawns no second control loop and leaves
  the device's state unchanged.
\<close>

theorem start_again_raises:
  "thread s \<noteq> NotStarted \<Longrightarrow> start s = Raise RuntimeError s"
  by (cases "thread s") (simp_all add: start_def)

theorem start_again_raises_witness:
  "thread running_camera \<noteq> NotStarted
   \<and> start running_camera = Raise RuntimeError running_camera"
  using start_again_raises [of running_camera]
  by (simp add: running_camera_def)

text \<open>
  C1 as stated fails: the device of the tests, started and with its loop running, raises
  on the second \<^verbatim>\<open>start()\<close>.
\<close>

theorem start_twice_counterexample:
  "running running_camera \<and> thread running_camera = Looping
   \<and> start running_camera = Raise RuntimeError running_camera"
  by (simp add: running_camera_def start_def)

section \<open>The secondary encoding\<close>

text \<open>
  C5 fails on the code: the encoder is enabled on the device of the tests, a step of its
  loop acquires frame 7 and stores it, and \<^verbatim>\<open>getFrame64()\<close> still returns None.
\<close>

theorem frame64_stays_None:
  "encoderIsEnabled running_camera
   \<and> (case run running_camera (delivers 7) of
         Return s \<Rightarrow> frame s = Some (Captured 7) \<and> getFrame64 s = None
       | Raise e s \<Rightarrow> False
       | Block w s \<Rightarrow> False)"
  by (simp add: running_camera_def test_camera_def delivers_def sample_lib_def step_defs
      getFrame64_def)

section \<open>The registry\<close>

text \<open>
  C8: for every registry and every name that is not a key of its device mapping,
  \<^verbatim>\<open>startOnly\<close>, \<^verbatim>\<open>stopOnly\<close>, \<^verbatim>\<open>pauseOnly\<close>, \<^verbatim>\<open>resumeOnly\<close> and \<^verbatim>\<open>setSpeedOnly\<close>
  return without raising and leave the registry, hence every device in it, unchanged;
  \<^verbatim>\<open>getDevice\<close> and \<^verbatim>\<open>getFrameOf\<close> return None.
\<close>

theorem unknown_name_is_ignored:
  assumes "deviceName \<notin> fst ` set (devices r)"
  shows "startOnly r deviceName = Return r
       \<and> stopOnly r deviceName = Return r
       \<and> pauseOnly r deviceName = Return r
       \<and> resumeOnly r deviceName = Return r
       \<and> setSpeedOnly r deviceName fps0 = Return r
       \<and> getDevice r deviceName = None
       \<and> getFrameOf r deviceName = None"
proof -
  from assms have "map_of (devices r) deviceName = None"
    by (simp add: map_of_eq_None_iff)
  then show ?thesis
    by (simp add: startOnly_def stopOnly_def pauseOnly_def resumeOnly_def setSpeedOnly_def
        getDevice_def getFrameOf_def)
qed

theorem unknown_name_is_ignored_witness:
  "''nonexistent'' \<notin> fst ` set (devices \<lparr>devices = [(''default'', running_camera)]\<rparr>)
   \<and> pauseOnly \<lparr>devices = [(''default'', running_camera)]\<rparr> ''nonexistent''
       = Return \<lparr>devices = [(''default'', running_camera)]\<rparr>"
  using unknown_name_is_ignored [of "''nonexistent''" "\<lparr>devices = [(''default'', running_camera)]\<rparr>"]
  by simp

section \<open>The fallback image\<close>

text \<open>
  C10, as the code has it: a size given as a 2-element tuple makes \<^verbatim>\<open>createBackground\<close>
  raise (AttributeError: a tuple has no \<^verbatim>\<open>append\<close>), and with it \<^verbatim>\<open>enableBackground\<close>
  and the constructor called with \<^verbatim>\<open>backgroundIsEnabled=True\<close>. A 2-element list and a
  3-element list or tuple pass the handling of the size: \<^verbatim>\<open>createBackground\<close> hands the
  reversed list extended by 3, or the 3-element size itself, to \<^verbatim>\<open>np.zeros\<close> and returns
  the image on which \<^verbatim>\<open>cv2.putText\<close> has drawn the text; it raises exactly when
  \<^verbatim>\<open>np.zeros\<close>, \<^verbatim>\<open>cv2.getTextSize\<close> or \<^verbatim>\<open>cv2.putText\<close> raises.
\<close>

theorem createBackground_sizes:
  assumes "kw_fps st \<noteq> Some 0"
  shows "createBackground s text font fontScale fontColor thickness (Some (PyTuple [a, b]))
           = Inl AttributeError
       \<and> enableBackground s text font fontScale fontColor thickness (Some (PyTuple [a, b]))
           = Raise AttributeError (s\<lparr>backgroundIsEnabled := True\<rparr>)
       \<and> init l nm (st\<lparr>kw_backgroundIsEnabled := True, kw_size := Some (PyTuple [a, b])\<rparr>)
           = Raise AttributeError ()
       \<and> createBackground s text font fontScale fontColor thickness (Some (PyList [a, b]))
           = (case np_zeros (lib s) [b, a, 3] of
                Inl e \<Rightarrow> Inl e
              | Inr img \<Rightarrow>
                  (case lib_getTextSize (lib s) text font fontScale thickness of
                     Inl e \<Rightarrow> Inl e
                   | Inr (tw, th) \<Rightarrow>
                       lib_putText (lib s) img text
                         (py_int (real_of_int (a - tw) / 2), py_int (real_of_int (b - th) / 2))
                         font fontScale fontColor thickness))
       \<and> createBackground s text font fontScale fontColor thickness (Some (PyList [a, b, c]))
           = (case np_zeros (lib s) [a, b, c] of
                Inl e \<Rightarrow> Inl e
              | Inr img \<Rightarrow>
                  (case lib_getTextSize (lib s) text font fontScale thickness of
                     Inl e \<Rightarrow> Inl e
                   | Inr (tw, th) \<Rightarrow>
                       lib_putText (lib s) img text
                         (py_int (real_of_int (b - tw) / 2), py_int (real_of_int (a - th) / 2))
                         font fontScale fontColor thickness))
       \<and> createBackground s text font fontScale fontColor thickness (Some (PyTuple [a, b, c]))
           = (case np_zeros (lib s) [a, b, c] of
                Inl e \<Rightarrow> Inl e
              | Inr img \<Rightarrow>
                  (case lib_getTextSize (lib s) text font fontScale thickness of
                     Inl e \<Rightarrow> Inl e
                   | Inr (tw, th) \<Rightarrow>
                       lib_putText (lib s) img text
                         (py_int (real_of_int (b - tw) / 2), py_int (real_of_int (a - th) / 2))
                         font fontScale fontColor thickness))"
proof -
  have t: "createBackground s' t' f' fs' fc' th' (Some (PyTuple [a, b])) = Inl AttributeError"
    for s' t' f' fs' fc' th'
    by (simp add: createBackground_def)
  have e: "enableBackground s text font fontScale fontColor thickness (Some (PyTuple [a, b]))
           = Raise AttributeError (s\<lparr>backgroundIsEnabled := True\<rparr>)"
    by (simp add: enableBackground_def t)
  have i: "init l nm (st\<lparr>kw_backgroundIsEnabled := True, kw_size := Some (PyTuple [a, b])\<rparr>)
           = Raise AttributeError ()"
    using assms by (simp add: init_def Let_def resume_def enableBackground_def t)
  have l2: "createBackground s text font fontScale fontColor thickness (Some (PyList [a, b]))
           = (case np_zeros (lib s) [b, a, 3] of
                Inl e \<Rightarrow> Inl e
              | Inr img \<Rightarrow>
                  (case lib_getTextSize (lib s) text font fontScale thickness of
                     Inl e \<Rightarrow> Inl e
                   | Inr (tw, th) \<Rightarrow>
                       lib_putText (lib s) img text
                         (py_int (real_of_int (a - tw) / 2), py_int (real_of_int (b - th) / 2))
                         font fontScale fontColor thickness))"
    by (simp add: createBackground_def split: sum.splits prod.splits)
  have l3: "createBackground s text font fontScale fontColor thickness (Some (Z [a, b, c]))
           = (case np_zeros (lib s) [a, b, c] of
                Inl e \<Rightarrow> Inl e
              | Inr img \<Rightarrow>
                  (case lib_getTextSize (lib s) text font fontScale thickness of
                     Inl e \<Rightarrow> Inl e
                   | Inr (tw, th) \<Rightarrow>
                       lib_putText (lib s) img text
                         (py_int (real_of_int (b - tw) / 2), py_int (real_of_int (a - th) / 2))
                         font fontScale fontColor thickness))"
    if "Z = PyList \<or> Z = PyTuple" for Z
    using that by (auto simp add: createBackground_def split: sum.splits prod.splits)
  from t e i l2 l3 [of PyList] l3 [of PyTuple] show ?thesis by simp
qed

theorem createBackground_sizes_witness:
  "createBackground test_camera ''Device not available'' 0 (1 / 2) [255, 255, 255] 1
       (Some (PyTuple [640, 480])) = Inl AttributeError
   \<and> init sample_lib ''default''
       (default_settings\<lparr>kw_backgroundIsEnabled := True, kw_size := Some (PyTuple [640, 480])\<rparr>)
       = Raise AttributeError ()
   \<and> createBackground test_camera ''Device not available'' 0 (1 / 2) [255, 255, 255] 1
       (Some (PyList [640, 480]))
       = Inr (PutText (Zeros [480, 640, 3]) ''Device not available'' (220, 230) 0 (1 / 2)
               [255, 255, 255] 1)
   \<and> createBackground test_camera ''Device not available'' 0 (1 / 2) [255, 255, 255] 1
       (Some (PyTuple [480, 640, 3]))
       = Inr (PutText (Zeros [480, 640, 3]) ''Device not available'' (220, 230) 0 (1 / 2)
               [255, 255, 255] 1)"
  using createBackground_sizes [of default_settings test_camera
      "''Device not available''" 0 "1 / 2" "[255, 255, 255]" 1 640 480 sample_lib "''default''" 3]
    createBackground_sizes [of default_settings test_camera
      "''Device not available''" 0 "1 / 2" "[255, 255, 255]" 1 480 640 sample_lib "''default''" 3]
  by (simp add: default_settings_def test_camera_def sample_lib_def np_zeros_def py_int_def)

text \<open>
  C10 as stated fails: the 2-element list \<open>[2^62, 2^62]\<close> does not succeed, \<^verbatim>\<open>np.zeros\<close>
  raises ValueError on the shape \<open>[2^62, 2^62, 3]\<close>.
\<close>

theorem huge_list_counterexample:
  "createBackground test_camera ''Device not available'' 0 (1 / 2) [255, 255, 255] 1
       (Some (PyList [4611686018427387904, 4611686018427387904])) = Inl ValueError"
  by (simp add: createBackground_def test_camera_def np_zeros_def)

section \<open>Reading a sample\<close>

text \<open>
  C4, as the code has it: \<^verbatim>\<open>read(timeout)\<close> does not raise when the device is not
  connected (it returns the fallback image, or None when there is none) and in
  latest-only mode (it returns the stored frame). In queue mode on a connected device it
  returns the oldest queued sample when there is one and the timeout is not negative; on
  an empty queue it raises \<^verbatim>\<open>queue.Empty\<close> once a timeout between 0 and
  \<^verbatim>\<open>threading.TIMEOUT_MAX\<close> has run out, OverflowError for a timeout of more than
  \<^verbatim>\<open>TIMEOUT_MAX + 1\<close> (one of the two in between), and waits without bound when the
  timeout is None; a negative timeout raises ValueError.
\<close>

theorem read_contract:
  "(\<not> isConnected s \<longrightarrow> read s timeout = Return (background s, s))
   \<and> (isConnected s \<and> \<not> queueModeEnabled s \<longrightarrow> read s timeout = Return (frame s, s))
   \<and> (isConnected s \<and> queueModeEnabled s \<and> elements (queue s) = x # xs \<and> 0 \<le> t \<longrightarrow>
        read s (Some t) = Return (x, s\<lparr>queue := (queue s)\<lparr>elements := xs\<rparr>\<rparr>))
   \<and> (isConnected s \<and> queueModeEnabled s \<and> elements (queue s) = [] \<and> 0 \<le> t
        \<and> t \<le> TIMEOUT_MAX \<longrightarrow>
        read s (Some t) = Raise QueueEmpty s)
   \<and> (isConnected s \<and> queueModeEnabled s \<and> elements (queue s) = [] \<and> TIMEOUT_MAX + 1 < t \<longrightarrow>
        read s (Some t) = Raise OverflowError s)
   \<and> (isConnected s \<and> queueModeEnabled s \<and> elements (queue s) = [] \<and> TIMEOUT_MAX < t
        \<and> t \<le> TIMEOUT_MAX + 1 \<longrightarrow>
        read s (Some t) = Raise (lib_wait (lib s) t) s)
   \<and> (isConnected s \<and> queueModeEnabled s \<and> t < 0 \<longrightarrow> read s (Some t) = Raise ValueError s)
   \<and> (isConnected s \<and> queueModeEnabled s \<and> elements (queue s) = x # xs \<longrightarrow>
        read s None = Return (x, s\<lparr>queue := (queue s)\<lparr>elements := xs\<rparr>\<rparr>))
   \<and> (isConnected s \<and> queueModeEnabled s \<and> elements (queue s) = [] \<longrightarrow>
        read s None = Block WaitQueueGet s)"
  by (simp add: read_def get_def TIMEOUT_MAX_def)

theorem read_contract_witness:
  "\<not> isConnected test_camera \<and> read test_camera (Some 0) = Return (None, test_camera)
   \<and> isConnected running_camera \<and> \<not> queueModeEnabled running_camera
   \<and> read running_camera (Some 0) = Return (frame running_camera, running_camera)
   \<and> isConnected (queue_camera 96) \<and> queueModeEnabled (queue_camera 96)
   \<and> elements (queue (queue_camera 96)) = []
   \<and> read (queue_camera 96) (Some 0) = Raise QueueEmpty (queue_camera 96)
   \<and> read (queue_camera 96) (Some 10000000000) = Raise OverflowError (queue_camera 96)
   \<and> read (queue_camera 96) (Some (- 1)) = Raise ValueError (queue_camera 96)
   \<and> read (queue_camera 96) None = Block WaitQueueGet (queue_camera 96)
   \<and> read ((queue_camera 96)\<lparr>queue := \<lparr>maxsize = 96,
              elements = [Some (Captured 0), Some (Captured 1)]\<rparr>\<rparr>) (Some 0)
       = Return (Some (Captured 0),
                 (queue_camera 96)\<lparr>queue := \<lparr>maxsize = 96, elements = [Some (Captured 1)]\<rparr>\<rparr>)
   \<and> read ((queue_camera 96)\<lparr>queue := \<lparr>maxsize = 96,
              elements = [Some (Captured 0), Some (Captured 1)]\<rparr>\<rparr>) None
       = Return (Some (Captured 0),
                 (queue_camera 96)\<lparr>queue := \<lparr>maxsize = 96, elements = [Some (Captured 1)]\<rparr>\<rparr>)"
  using read_contract [of test_camera "Some 0" "Some (Captured 0)" "[]" 0]
    read_contract [of running_camera "Some 0" "Some (Captured 0)" "[]" 0]
    read_contract [of "queue_camera 96" "Some 0" "Some (Captured 0)" "[]" 0]
    read_contract [of "queue_camera 96" "Some 0" "Some (Captured 0)" "[]" "- 1"]
    read_contract [of "queue_camera 96" "Some 0" "Some (Captured 0)" "[]" 10000000000]
    read_contract [of "(queue_camera 96)\<lparr>queue := \<lparr>maxsize = 96,
        elements = [Some (Captured 0), Some (Captured 1)]\<rparr>\<rparr>" "Some 0" "Some (Captured 0)"
        "[Some (Captured 1)]" 0]
  by (simp add: queue_camera_def running_camera_def test_camera_def isConnected_def
      TIMEOUT_MAX_def)

text \<open>
  C4 as stated fails: a connected device in queue mode with nothing queued raises
  \<^verbatim>\<open>queue.Empty\<close> on \<^verbatim>\<open>read(0)\<close>.
\<close>

theorem read_empty_queue_counterexample:
  "isConnected (queue_camera 96)
   \<and> read (queue_camera 96) (Some 0) = Raise QueueEmpty (queue_camera 96)"
  by (simp add: queue_camera_def running_camera_def test_camera_def read_def get_def
      isConnected_def TIMEOUT_MAX_def)

section \<open>Steps of the loop\<close>

lemma same_setup_refl: "same_setup s s"
  by (simp add: same_setup_def)

lemma same_setup_trans: "same_setup s u \<Longrightarrow> same_setup u v \<Longrightarrow> same_setup s v"
  by (simp add: same_setup_def)

lemma same_setup_log: "same_setup s (log e s)"
  by (simp add: same_setup_def log_def)

lemma same_setup_emit: "same_setup s (emit s ev p)"
  by (simp add: same_setup_def emit_def)

lemma preprocess_same:
  assumes "same_setup s u"
  shows "preprocess u f = preprocess s f"
proof -
  from assms have e: "lib u = lib s" "size_cfg u = size_cfg s" "flipX u = flipX s"
    "flipY u = flipY s"
    by (simp_all add: same_setup_def)
  show ?thesis unfolding preprocess_def e ..
qed

lemma process_kind_same:
  assumes "same_setup s u"
  shows "(\<exists>p. process u f = Return p) = (\<exists>p. process s f = Return p)"
proof (cases "processing s")
  case None
  with assms show ?thesis by (simp add: same_setup_def process_def)
next
  case (Some g)
  have k: "fst (getProcessingParams u) = fst (getProcessingParams s)"
    using assms by (simp add: same_setup_def getProcessingParams_def split: option.splits)
  obtain ku u1 where gu: "getProcessingParams u = (ku, u1)" by (cases "getProcessingParams u")
  obtain ks s1 where gs: "getProcessingParams s = (ks, s1)" by (cases "getProcessingParams s")
  from k gu gs have "ku = ks" by simp
  with Some assms gu gs show ?thesis
    by (cases "g f ks") (simp_all add: same_setup_def process_def)
qed

lemma frame_ok_same:
  assumes "same_setup s u"
  shows "frame_ok u w = frame_ok s w"
proof (cases "preprocess s (snd (w_read w))")
  case (Inl e)
  with preprocess_same [OF assms] show ?thesis by (simp add: frame_ok_def)
next
  case (Inr f1)
  have "frame_ok u w = (\<exists>p. process u f1 = Return p)"
    using Inr preprocess_same [OF assms] by (cases "process u f1") (simp_all add: frame_ok_def)
  moreover have "frame_ok s w = (\<exists>p. process s f1 = Return p)"
    using Inr by (cases "process s f1") (simp_all add: frame_ok_def)
  ultimately show ?thesis using process_kind_same [OF assms] by simp
qed

lemma sleeps_same: "same_setup s u \<Longrightarrow> sleeps u d = sleeps s d"
  by (simp add: same_setup_def sleeps_def)

lemma process_Return:
  assumes "process s f = Return (g, u)"
  shows "same_setup s u \<and> readLock u = readLock s \<and> thread u = thread s \<and> trace u = trace s
       \<and> queue u = queue s \<and> emitted u = emitted s \<and> readEvent u = readEvent s
       \<and> device u = device s"
proof (cases "processing s")
  case None
  with assms show ?thesis by (simp add: process_def same_setup_def)
next
  case (Some h)
  show ?thesis
  proof (cases "processingParams s")
    case None
    with Some assms have "u = s\<lparr>processingParams := Some []\<rparr>"
      by (cases "h f []") (simp_all add: process_def getProcessingParams_def)
    with None show ?thesis by (simp add: same_setup_def)
  next
    case (Some kw)
    with \<open>processing s = Some h\<close> assms have "u = s"
      by (cases "h f kw") (simp_all add: process_def getProcessingParams_def)
    then show ?thesis by (simp add: same_setup_def)
  qed
qed

lemma finish_Return:
  assumes "finish s = Return u"
  shows "same_setup s u \<and> \<not> readLock u \<and> readEvent u \<and> thread u = thread s \<and> queue u = queue s
       \<and> device u = device s"
proof (cases "readLock s")
  case True
  with assms have "u = s\<lparr>readEvent := True, readLock := False,
                          trace := trace s @ [EvSet ReadEvent, EvRelease]\<rparr>"
    by (simp add: finish_def log_def Let_def)
  then show ?thesis by (simp add: same_setup_def)
next
  case False
  with assms have "u = s\<lparr>readEvent := True, trace := trace s @ [EvSet ReadEvent]\<rparr>"
    by (simp add: finish_def log_def Let_def)
  with False show ?thesis by (simp add: same_setup_def)
qed

lemma put_Return:
  assumes "put s x = Return u"
  shows "same_setup s u \<and> readLock u = readLock s \<and> thread u = thread s
       \<and> elements (queue u) = elements (queue s) @ [x] \<and> device u = device s"
proof -
  from assms have "u = log EvPut (s\<lparr>queue := (queue s)\<lparr>elements := elements (queue s) @ [x]\<rparr>\<rparr>)"
    by (simp add: put_def split: if_splits)
  then show ?thesis by (simp add: same_setup_def log_def)
qed

text \<open>The state in which publish reaches the queue.\<close>

lemma publish_shape:
  assumes "preprocess s f = Inr f1" and "process s f1 = Return (g, s1)"
  shows "\<exists>s3. same_setup s s3 \<and> readLock s3 = readLock s \<and> thread s3 = thread s
           \<and> queue s3 = queue s \<and> frame s3 = Some g \<and> device s3 = device s
           \<and> publish s f = (if queueModeEnabled s3 then put s3 (frame s3) else Return s3)"
proof -
  note k = process_Return [OF assms(2)]
  define s2 where "s2 = s1\<lparr>frame := Some g\<rparr>"
  define s3 where "s3 = (if emitterIsEnabled s2
                         then emit (emit s2 ''frame-ready'' (FrameOf (name s2) (frame s2)))
                                ''frame-available'' (NameOf (name s2))
                         else s2)"
  have p: "publish s f = (if queueModeEnabled s3 then put s3 (frame s3) else Return s3)"
    using assms by (simp add: publish_def Let_def s2_def s3_def)
  have "same_setup s1 s3 \<and> readLock s3 = readLock s1 \<and> thread s3 = thread s1
        \<and> queue s3 = queue s1 \<and> frame s3 = Some g \<and> device s3 = device s1"
    by (simp add: s3_def s2_def same_setup_def emit_def)
  with k p show ?thesis by (auto intro: same_setup_trans)
qed

lemma publish_Return:
  assumes "publish s f = Return u"
  shows "same_setup s u \<and> readLock u = readLock s \<and> thread u = thread s
       \<and> device u = device s"
proof -
  from assms obtain f1 where p: "preprocess s f = Inr f1"
    by (cases "preprocess s f") (simp_all add: publish_def)
  from assms p obtain g s1 where q: "process s f1 = Return (g, s1)"
    by (cases "process s f1") (auto simp add: publish_def)
  from publish_shape [OF p q] obtain s3 where s3: "same_setup s s3" "readLock s3 = readLock s"
    "thread s3 = thread s" "device s3 = device s"
    "publish s f = (if queueModeEnabled s3 then put s3 (frame s3) else Return s3)"
    by blast
  show ?thesis
  proof (cases "queueModeEnabled s3")
    case True
    with s3(5) assms have "put s3 (frame s3) = Return u" by simp
    from put_Return [OF this] s3(1,2,3,4) show ?thesis by (auto intro: same_setup_trans)
  next
    case False
    with s3(5) assms have "u = s3" by simp
    with s3 show ?thesis by simp
  qed
qed

lemma acquired_read_fails:
  assumes "device s = Some d"
  shows "acquired s (False, f) =
           Return (s\<lparr>readEvent := True, readLock := False,
                     trace := trace s @ [EvAcquire, EvRead False, EvSet ReadEvent, EvRelease]\<rparr>)"
  using assms by (simp add: acquired_def finish_def log_def Let_def)

lemma acquired_Return:
  assumes "acquired s r = Return u"
  shows "same_setup s u \<and> \<not> readLock u \<and> readEvent u \<and> thread u = thread s
       \<and> device u = device s"
proof -
  from assms obtain d where d: "device s = Some d"
    by (cases "device s") (auto simp add: acquired_def log_def Let_def)
  obtain b f where r: "r = (b, f)" by (cases r)
  show ?thesis
  proof (cases b)
    case False
    with assms acquired_read_fails [OF d, of f] r
    have "u = s\<lparr>readEvent := True, readLock := False,
                 trace := trace s @ [EvAcquire, EvRead False, EvSet ReadEvent, EvRelease]\<rparr>"
      by simp
    then show ?thesis by (simp add: same_setup_def)
  next
    case True
    define s2 where "s2 = log (EvRead True) (log EvAcquire (s\<lparr>readLock := True\<rparr>))"
    have s2: "same_setup s s2" "thread s2 = thread s" "device s2 = device s"
      by (simp_all add: s2_def log_def same_setup_def)
    have a: "bind (publish s2 f) finish = Return u"
      using assms d True r by (simp add: acquired_def log_def Let_def s2_def)
    then obtain v where v: "publish s2 f = Return v" and fin: "finish v = Return u"
      by (cases "publish s2 f") auto
    from publish_Return [OF v] finish_Return [OF fin] s2 show ?thesis
      by (auto intro: same_setup_trans)
  qed
qed

lemma update_Return:
  assumes "update s r = Return u"
  shows "same_setup s u \<and> \<not> readLock u \<and> readEvent u \<and> thread u = thread s
       \<and> device u = device s"
proof -
  define s1 where "s1 = log (EvClear ReadEvent) (s\<lparr>readEvent := False\<rparr>)"
  have s1: "same_setup s s1" "thread s1 = thread s" "device s1 = device s"
    by (simp_all add: s1_def log_def same_setup_def)
  have "acquired s1 r = Return u"
    using assms by (auto simp add: update_def Let_def s1_def log_def split: if_splits)
  from acquired_Return [OF this] s1 show ?thesis
    by (auto intro: same_setup_trans)
qed

lemma update_read_fails:
  assumes "\<not> readLock s" and "device s = Some d"
  shows "update s (False, f) =
           Return (s\<lparr>readEvent := True, readLock := False,
                     trace := trace s @ [EvClear ReadEvent, EvAcquire, EvRead False,
                                         EvSet ReadEvent, EvRelease]\<rparr>)"
  using assms by (simp add: update_def acquired_def finish_def log_def Let_def)





lemma delay_then_pause:
  assumes "fps u = None \<or> sleeps u (delay u)"
  shows "bind (applyDelay u) needAPause =
           (if pauseEvent u
            then Return (u\<lparr>trace := trace u @ (if fps u = None then [] else [EvSleep (delay u)])
                                     @ [EvPauseWait]\<rparr>)
            else Block WaitPause
                   (u\<lparr>trace := trace u @ (if fps u = None then [] else [EvSleep (delay u)])
                                     @ [EvPauseWait]\<rparr>))"
  using assms
  by (auto simp add: applyDelay_def sleep_def sleeps_def needAPause_def log_def Let_def)



lemma init_delay:
  "init l nm st = Return s \<Longrightarrow> fps s = Some n \<Longrightarrow> delay s = 1 / real_of_int n"
  by (auto simp add: init_def Let_def resume_def enableBackground_def
      split: if_splits sum.splits result.splits)

lemma setSpeed_delay:
  "setSpeed s (Some n) = Return s' \<Longrightarrow> fps s' = Some n \<and> delay s' = 1 / real_of_int n"
  by (auto simp add: setSpeed_def Let_def split: if_splits)

subsection \<open>Rate limiting\<close>




subsection \<open>The acquisition step\<close>

lemma run_read_fails:
  assumes "thread s = Looping" and "running s" and "pauseEvent s" and "\<not> readLock s"
    and "device s = Some d" and "isOpened d" and "\<not> read_ok w"
    and "fps s = None \<or> sleeps s (delay s)"
  shows "run s w =
           Return (s\<lparr>readEvent := True,
                     trace := trace s @ [EvClear ReadEvent, EvAcquire, EvRead False,
                                         EvSet ReadEvent, EvRelease]
                              @ (if fps s = None then [] else [EvSleep (delay s)])
                              @ [EvPauseWait]\<rparr>)"
proof -
  obtain f where w: "w_read w = (False, f)"
    using assms(7) by (cases "w_read w") (simp add: read_ok_def)
  define u where "u = s\<lparr>readEvent := True, readLock := False,
                     trace := trace s @ [EvClear ReadEvent, EvAcquire, EvRead False,
                                         EvSet ReadEvent, EvRelease]\<rparr>"
  have a: "attempt s w = Return u"
    using assms(5,6) w update_read_fails [OF assms(4,5), of f]
    by (simp add: attempt_def isConnected_def u_def)
  have su: "fps u = None \<or> sleeps u (delay u)"
    using assms(8) by (simp add: u_def sleeps_def)
  have "bind (applyDelay u) needAPause =
          Return (u\<lparr>trace := trace u @ (if fps u = None then [] else [EvSleep (delay u)])
                                     @ [EvPauseWait]\<rparr>)"
    using delay_then_pause [OF su] assms(3) by (simp add: u_def)
  then show ?thesis
    using assms(1,2,4) a by (simp add: run_def iteration_def u_def)
qed

text \<open>
  C9, as the code has it: when the handle's read reports failure during an acquisition
  step (the lock is free and there is a handle to read from), the step returns and leaves
  the stored frame, the emitted events, the queue and the handle as they were; the read
  event is set and the lock is released. Nothing but the read event and the thread's
  trace changes. The handle is not touched, so an iteration of the loop whose read fails
  on a handle that reports opened ends with the device still connected: the next
  iteration is another acquisition attempt, not a reconnect.
\<close>

theorem update_read_failure:
  assumes "\<not> readLock s" and "device s = Some d"
  shows "update s (False, f) =
           Return (s\<lparr>readEvent := True,
                     trace := trace s @ [EvClear ReadEvent, EvAcquire, EvRead False,
                                         EvSet ReadEvent, EvRelease]\<rparr>)
       \<and> (\<exists>s'. update s (False, f) = Return s' \<and> frame s' = frame s
              \<and> emitted s' = emitted s \<and> queue s' = queue s \<and> device s' = device s
              \<and> readEvent s' \<and> \<not> readLock s')
       \<and> (thread s = Looping \<and> running s \<and> pauseEvent s \<and> isOpened d \<and> \<not> read_ok w
            \<and> (fps s = None \<or> sleeps s (delay s)) \<longrightarrow>
          (\<exists>u. run s w = Return u \<and> thread u = Looping \<and> running u \<and> isConnected u
              \<and> frame u = frame s \<and> emitted u = emitted s \<and> queue u = queue s
              \<and> device u = device s \<and> readEvent u \<and> \<not> readLock u
              \<and> attempt u w' = update u (w_read w')
              \<and> trace u = trace s @ [EvClear ReadEvent, EvAcquire, EvRead False,
                                      EvSet ReadEvent, EvRelease]
                             @ (if fps s = None then [] else [EvSleep (delay s)])
                             @ [EvPauseWait]))"
proof -
  have a: "update s (False, f) =
           Return (s\<lparr>readEvent := True,
                     trace := trace s @ [EvClear ReadEvent, EvAcquire, EvRead False,
                                         EvSet ReadEvent, EvRelease]\<rparr>)"
    using assms by (simp add: update_def acquired_def finish_def log_def Let_def)
  have b: "\<exists>s'. update s (False, f) = Return s' \<and> frame s' = frame s
              \<and> emitted s' = emitted s \<and> queue s' = queue s \<and> device s' = device s
              \<and> readEvent s' \<and> \<not> readLock s'"
    unfolding a using assms(1) by simp
  have c: "thread s = Looping \<and> running s \<and> pauseEvent s \<and> isOpened d \<and> \<not> read_ok w
            \<and> (fps s = None \<or> sleeps s (delay s)) \<longrightarrow>
          (\<exists>u. run s w = Return u \<and> thread u = Looping \<and> running u \<and> isConnected u
              \<and> frame u = frame s \<and> emitted u = emitted s \<and> queue u = queue s
              \<and> device u = device s \<and> readEvent u \<and> \<not> readLock u
              \<and> attempt u w' = update u (w_read w')
              \<and> trace u = trace s @ [EvClear ReadEvent, EvAcquire, EvRead False,
                                      EvSet ReadEvent, EvRelease]
                             @ (if fps s = None then [] else [EvSleep (delay s)])
                             @ [EvPauseWait])"
  proof
    assume h: "thread s = Looping \<and> running s \<and> pauseEvent s \<and> isOpened d \<and> \<not> read_ok w
            \<and> (fps s = None \<or> sleeps s (delay s))"
    then have "run s w =
           Return (s\<lparr>readEvent := True,
                     trace := trace s @ [EvClear ReadEvent, EvAcquire, EvRead False,
                                         EvSet ReadEvent, EvRelease]
                              @ (if fps s = None then [] else [EvSleep (delay s)])
                              @ [EvPauseWait]\<rparr>)"
      using run_read_fails [OF _ _ _ assms(1,2), of w] by simp
    then show "\<exists>u. run s w = Return u \<and> thread u = Looping \<and> running u \<and> isConnected u
              \<and> frame u = frame s \<and> emitted u = emitted s \<and> queue u = queue s
              \<and> device u = device s \<and> readEvent u \<and> \<not> readLock u
              \<and> attempt u w' = update u (w_read w')
              \<and> trace u = trace s @ [EvClear ReadEvent, EvAcquire, EvRead False,
                                      EvSet ReadEvent, EvRelease]
                             @ (if fps s = None then [] else [EvSleep (delay s)])
                             @ [EvPauseWait]"
      using h assms by (simp add: isConnected_def attempt_def)
  qed
  from a b c show ?thesis by simp
qed

theorem update_read_failure_witness:
  "\<not> readLock running_camera \<and> device running_camera = Some (VideoCapture True)
   \<and> update running_camera (False, Captured 0) =
       Return (running_camera\<lparr>readEvent := True,
                 trace := trace running_camera @ [EvClear ReadEvent, EvAcquire, EvRead False,
                                                  EvSet ReadEvent, EvRelease]\<rparr>)
   \<and> thread running_camera = Looping \<and> running running_camera \<and> pauseEvent running_camera
   \<and> isOpened (VideoCapture True) \<and> \<not> read_ok unplugged
   \<and> sleeps running_camera (delay running_camera)
   \<and> (\<exists>u. run running_camera unplugged = Return u \<and> isConnected u
          \<and> trace u = [EvOpen, EvSet RunningEvent, EvClear ReadEvent, EvAcquire, EvRead False,
                        EvSet ReadEvent, EvRelease, EvSleep (1 / 10), EvPauseWait])"
proof -
  have p: "\<not> readLock running_camera" "device running_camera = Some (VideoCapture True)"
    by (simp_all add: running_camera_def test_camera_def)
  have q: "thread running_camera = Looping \<and> running running_camera
           \<and> pauseEvent running_camera \<and> isOpened (VideoCapture True) \<and> \<not> read_ok unplugged
           \<and> (fps running_camera = None \<or> sleeps running_camera (delay running_camera))"
    by (simp add: running_camera_def test_camera_def sample_lib_def unplugged_def read_ok_def
        sleeps_def time_sleep_def)
  note t = update_read_failure [OF p, of "Captured 0" unplugged]
  from t [THEN conjunct2, THEN conjunct2, THEN mp, OF q]
  obtain u where u: "run running_camera unplugged = Return u" "isConnected u"
    "trace u = trace running_camera @ [EvClear ReadEvent, EvAcquire, EvRead False,
                                       EvSet ReadEvent, EvRelease]
                 @ (if fps running_camera = None then [] else [EvSleep (delay running_camera)])
                 @ [EvPauseWait]"
    by blast
  have "trace u = [EvOpen, EvSet RunningEvent, EvClear ReadEvent, EvAcquire, EvRead False,
                   EvSet ReadEvent, EvRelease, EvSleep (1 / 10), EvPauseWait]"
    unfolding u(3) by (simp add: running_camera_def test_camera_def)
  with u(1,2) have "\<exists>u. run running_camera unplugged = Return u \<and> isConnected u
          \<and> trace u = [EvOpen, EvSet RunningEvent, EvClear ReadEvent, EvAcquire, EvRead False,
                        EvSet ReadEvent, EvRelease, EvSleep (1 / 10), EvPauseWait]"
    by blast
  moreover have "sleeps running_camera (delay running_camera)"
    by (simp add: running_camera_def test_camera_def sample_lib_def sleeps_def time_sleep_def)
  ultimately show ?thesis using p q t [THEN conjunct1] by simp
qed

text \<open>
  C9 as stated fails in its last clause: after a failed read on an opened handle the
  loop does not proceed to the reconnect branch. Two iterations with failing reads are
  two acquisition steps; the handle is never reopened.
\<close>

theorem failed_read_repeats_counterexample:
  "isConnected running_camera \<and> \<not> read_ok unplugged
   \<and> runs running_camera [unplugged, unplugged] =
       Return (running_camera\<lparr>readEvent := True,
                 trace := [EvOpen, EvSet RunningEvent,
                           EvClear ReadEvent, EvAcquire, EvRead False, EvSet ReadEvent,
                           EvRelease, EvSleep (1 / 10), EvPauseWait,
                           EvClear ReadEvent, EvAcquire, EvRead False, EvSet ReadEvent,
                           EvRelease, EvSleep (1 / 10), EvPauseWait]\<rparr>)"
  by (simp add: running_camera_def test_camera_def unplugged_def sample_lib_def read_ok_def
      step_defs)

subsection \<open>Queue mode\<close>

lemma update_put:
  assumes "\<not> readLock s" and "device s = Some d" and "queueModeEnabled s"
    and "frame_ok s w" and "w_read w = (True, f)"
  shows "if full (queue s)
         then \<exists>u. update s (True, f) = Block WaitQueuePut u \<and> queue u = queue s \<and> readLock u
         else \<exists>u. update s (True, f) = Return u
                \<and> length (elements (queue u)) = Suc (length (elements (queue s)))"
proof -
  define s2 where "s2 = log (EvRead True) (log EvAcquire
                          ((log (EvClear ReadEvent) (s\<lparr>readEvent := False\<rparr>))\<lparr>readLock := True\<rparr>))"
  have s2: "same_setup s s2" "queue s2 = queue s" "readLock s2"
    by (simp_all add: s2_def log_def same_setup_def)
  have up: "update s (True, f) = bind (publish s2 f) finish"
    using assms(1,2) by (simp add: update_def acquired_def log_def Let_def s2_def)
  have ok: "frame_ok s2 w" using assms(4) frame_ok_same [OF s2(1)] by simp
  from ok assms(5) obtain f1 where p: "preprocess s2 f = Inr f1"
    by (cases "preprocess s2 f") (simp_all add: frame_ok_def)
  from ok assms(5) p obtain g s1 where q: "process s2 f1 = Return (g, s1)"
    by (cases "process s2 f1") (auto simp add: frame_ok_def)
  from publish_shape [OF p q] obtain s3 where s3: "same_setup s2 s3" "readLock s3 = readLock s2"
    "queue s3 = queue s2"
    "publish s2 f = (if queueModeEnabled s3 then put s3 (frame s3) else Return s3)"
    by blast
  have "queueModeEnabled s3" using s3(1) s2(1) assms(3) by (simp add: same_setup_def)
  with s3(4) have pub: "publish s2 f = put s3 (frame s3)" by simp
  show ?thesis
  proof (cases "full (queue s)")
    case True
    then have "put s3 (frame s3) = Block WaitQueuePut s3" using s3(3) s2(2) by (simp add: put_def)
    with up pub have "update s (True, f) = Block WaitQueuePut s3" by simp
    with True s3 s2 show ?thesis by simp
  next
    case False
    then obtain s4 where s4: "put s3 (frame s3) = Return s4"
      using s3(3) s2(2) by (simp add: put_def)
    obtain u where u: "finish s4 = Return u" by (simp add: finish_def Let_def)
    have "update s (True, f) = Return u" using up pub s4 u by simp
    moreover have "length (elements (queue u)) = Suc (length (elements (queue s)))"
      using put_Return [OF s4] finish_Return [OF u] s3(3) s2(2) by simp
    ultimately show ?thesis using False by simp
  qed
qed

lemma run_read_ok:
  assumes "thread s = Looping" and "running s" and "pauseEvent s" and "isConnected s"
    and "\<not> readLock s" and "queueModeEnabled s" and "fps s = None \<or> sleeps s (delay s)"
    and "read_ok w" and "frame_ok s w"
  shows "if full (queue s)
         then \<exists>u. run s w = Block WaitQueuePut u \<and> queue u = queue s \<and> readLock u
                \<and> thread u = InPut
         else \<exists>u. run s w = Return u \<and> thread u = Looping \<and> running u \<and> pauseEvent u
                \<and> isConnected u \<and> \<not> readLock u \<and> queueModeEnabled u
                \<and> same_setup s u
                \<and> maxsize (queue u) = maxsize (queue s)
                \<and> length (elements (queue u)) = Suc (length (elements (queue s)))"
proof -
  from assms(4) obtain d where d: "device s = Some d" and o: "isOpened d"
    by (auto simp add: isConnected_def split: option.splits)
  obtain f where w: "w_read w = (True, f)"
    using assms(8) by (cases "w_read w") (simp add: read_ok_def)
  show ?thesis
  proof (cases "full (queue s)")
    case True
    with update_put [OF assms(5) d assms(6,9) w]
    obtain u where u: "update s (True, f) = Block WaitQueuePut u" "queue u = queue s" "readLock u"
      by auto
    then have "run s w = Block WaitQueuePut (u\<lparr>thread := InPut\<rparr>)"
      using assms(1,2,4) w by (simp add: run_def iteration_def attempt_def)
    with True u show ?thesis by simp
  next
    case False
    with update_put [OF assms(5) d assms(6,9) w]
    obtain u where u: "update s (True, f) = Return u"
      "length (elements (queue u)) = Suc (length (elements (queue s)))"
      by auto
    note k = update_Return [OF u(1)]
    have ss: "same_setup s u" using k by simp
    have e: "fps u = fps s" "delay u = delay s" "pauseEvent u = pauseEvent s"
      "running u = running s" "queueModeEnabled u = queueModeEnabled s"
      "maxsize (queue u) = maxsize (queue s)"
      using ss by (simp_all add: same_setup_def)
    have fu: "fps u = None \<or> sleeps u (delay u)"
      using assms(7) sleeps_same [OF ss] e by simp
    define v where "v = u\<lparr>trace := trace u @ (if fps u = None then [] else [EvSleep (delay u)])
                                     @ [EvPauseWait]\<rparr>"
    have "bind (applyDelay u) needAPause = Return v"
      using delay_then_pause [OF fu] e assms(3) by (simp add: v_def)
    then have r: "run s w = Return (v\<lparr>thread := Looping\<rparr>)"
      using assms(1,2,4) w u(1) by (simp add: run_def iteration_def attempt_def)
    have "same_setup u (v\<lparr>thread := Looping\<rparr>)" by (simp add: v_def same_setup_def)
    with ss have ss': "same_setup s (v\<lparr>thread := Looping\<rparr>)" by (rule same_setup_trans)
    have "thread (v\<lparr>thread := Looping\<rparr>) = Looping \<and> running (v\<lparr>thread := Looping\<rparr>)
          \<and> pauseEvent (v\<lparr>thread := Looping\<rparr>) \<and> isConnected (v\<lparr>thread := Looping\<rparr>)
          \<and> \<not> readLock (v\<lparr>thread := Looping\<rparr>) \<and> queueModeEnabled (v\<lparr>thread := Looping\<rparr>)
          \<and> maxsize (queue (v\<lparr>thread := Looping\<rparr>)) = maxsize (queue s)
          \<and> length (elements (queue (v\<lparr>thread := Looping\<rparr>)))
              = Suc (length (elements (queue s)))"
      using k u(2) e assms(2,3,6) d o by (simp add: v_def isConnected_def)
    with r ss' False show ?thesis by simp
  qed
qed

lemma queue_bounded:
  assumes "thread s = Looping" and "running s" and "pauseEvent s" and "isConnected s"
    and "\<not> readLock s" and "queueModeEnabled s" and "fps s = None \<or> sleeps s (delay s)"
    and "0 < maxsize (queue s)"
    and "int (length (elements (queue s))) \<le> maxsize (queue s)"
    and "list_all (\<lambda>w. read_ok w \<and> frame_ok s w) ws"
  shows "int (length (elements (queue (state_of (runs s ws))))) \<le> maxsize (queue s)
       \<and> (if int (length (elements (queue s)) + length ws) \<le> maxsize (queue s)
          then \<exists>s'. runs s ws = Return s'
                 \<and> length (elements (queue s')) = length (elements (queue s)) + length ws
          else \<exists>s'. runs s ws = Block WaitQueuePut s' \<and> readLock s' \<and> thread s' = InPut
                 \<and> int (length (elements (queue s'))) = maxsize (queue s))"
  using assms
proof (induction ws arbitrary: s)
  case Nil
  then show ?case by simp
next
  case (Cons w ws)
  have rw: "read_ok w" "frame_ok s w"
    and rws: "list_all (\<lambda>w. read_ok w \<and> frame_ok s w) ws"
    using Cons.prems(10) by simp_all
  note step = run_read_ok [OF Cons.prems(1-7) rw]
  show ?case
  proof (cases "full (queue s)")
    case True
    with step obtain u where u: "run s w = Block WaitQueuePut u" "queue u = queue s" "readLock u"
      "thread u = InPut"
      by auto
    from True Cons.prems(9) have eq: "int (length (elements (queue s))) = maxsize (queue s)"
      by (simp add: full_def)
    with u show ?thesis by simp
  next
    case False
    with step obtain u where u: "run s w = Return u" "thread u = Looping" "running u"
      "pauseEvent u" "isConnected u" "\<not> readLock u" "queueModeEnabled u"
      "same_setup s u" "maxsize (queue u) = maxsize (queue s)"
      "length (elements (queue u)) = Suc (length (elements (queue s)))"
      by auto
    have e: "fps u = fps s" "delay u = delay s" using u(8) by (simp_all add: same_setup_def)
    have p7: "fps u = None \<or> sleeps u (delay u)"
      using Cons.prems(7) sleeps_same [OF u(8)] e by simp
    from False Cons.prems(8,9) have lt: "int (length (elements (queue s))) < maxsize (queue s)"
      by (simp add: full_def)
    have p8: "0 < maxsize (queue u)" using u(9) Cons.prems(8) by simp
    have p9: "int (length (elements (queue u))) \<le> maxsize (queue u)" using u(9,10) lt by simp
    have p10: "list_all (\<lambda>w. read_ok w \<and> frame_ok u w) ws"
      using rws frame_ok_same [OF u(8)] by simp
    note ih = Cons.IH [OF u(2-7) p7 p8 p9 p10]
    have r: "runs s (w # ws) = runs u ws" using u(1) by simp
    have l: "length (elements (queue u)) + length ws
               = length (elements (queue s)) + length (w # ws)"
      using u(10) by simp
    from ih show ?thesis unfolding r l u(9) .
  qed
qed

lemma queue_unbounded:
  assumes "thread s = Looping" and "running s" and "pauseEvent s" and "isConnected s"
    and "\<not> readLock s" and "queueModeEnabled s" and "fps s = None \<or> sleeps s (delay s)"
    and "maxsize (queue s) \<le> 0"
    and "list_all (\<lambda>w. read_ok w \<and> frame_ok s w) ws"
  shows "\<exists>s'. runs s ws = Return s'
           \<and> length (elements (queue s')) = length (elements (queue s)) + length ws"
  using assms
proof (induction ws arbitrary: s)
  case Nil
  then show ?case by simp
next
  case (Cons w ws)
  have rw: "read_ok w" "frame_ok s w"
    and rws: "list_all (\<lambda>w. read_ok w \<and> frame_ok s w) ws"
    using Cons.prems(9) by simp_all
  have nf: "\<not> full (queue s)" using Cons.prems(8) by (simp add: full_def)
  with run_read_ok [OF Cons.prems(1-7) rw]
  obtain u where u: "run s w = Return u" "thread u = Looping" "running u"
    "pauseEvent u" "isConnected u" "\<not> readLock u" "queueModeEnabled u"
    "same_setup s u" "maxsize (queue u) = maxsize (queue s)"
    "length (elements (queue u)) = Suc (length (elements (queue s)))"
    by auto
  have e: "fps u = fps s" "delay u = delay s" using u(8) by (simp_all add: same_setup_def)
  have p7: "fps u = None \<or> sleeps u (delay u)"
    using Cons.prems(7) sleeps_same [OF u(8)] e by simp
  have p8: "maxsize (queue u) \<le> 0" using u(9) Cons.prems(8) by simp
  have p9: "list_all (\<lambda>w. read_ok w \<and> frame_ok u w) ws"
    using rws frame_ok_same [OF u(8)] by simp
  note ih = Cons.IH [OF u(2-7) p7 p8 p9]
  have r: "runs s (w # ws) = runs u ws" using u(1) by simp
  have l: "length (elements (queue u)) + length ws
             = length (elements (queue s)) + length (w # ws)"
    using u(10) by simp
  from ih show ?case unfolding r l .
qed

text \<open>
  C2, as the code has it: with queue mode enabled and a positive capacity \<open>K\<close>, the queue
  never holds more than \<open>K\<close> samples, and enqueueing blocks. While the loop runs with an
  open handle, is not paused, every read succeeds with a frame that passes the
  processing, and nothing is dequeued, each iteration enqueues one sample as long as
  there is room; the first iteration that finds the queue full blocks the thread in
  \<^verbatim>\<open>queue.put\<close>, holding the acquisition lock. With a capacity \<open>K \<le> 0\<close> the queue has no
  bound: every iteration enqueues its sample and none blocks.
\<close>

theorem queue_backpressure:
  assumes "thread s = Looping" and "running s" and "pauseEvent s" and "isConnected s"
    and "\<not> readLock s" and "queueModeEnabled s" and "fps s = None \<or> sleeps s (delay s)"
    and "list_all (\<lambda>w. read_ok w \<and> frame_ok s w) ws"
  shows "(0 < maxsize (queue s) \<and> int (length (elements (queue s))) \<le> maxsize (queue s) \<longrightarrow>
          int (length (elements (queue (state_of (runs s ws))))) \<le> maxsize (queue s)
          \<and> (if int (length (elements (queue s)) + length ws) \<le> maxsize (queue s)
             then \<exists>s'. runs s ws = Return s'
                    \<and> length (elements (queue s')) = length (elements (queue s)) + length ws
             else \<exists>s'. runs s ws = Block WaitQueuePut s' \<and> readLock s' \<and> thread s' = InPut
                    \<and> int (length (elements (queue s'))) = maxsize (queue s)))
       \<and> (maxsize (queue s) \<le> 0 \<longrightarrow>
          (\<exists>s'. runs s ws = Return s'
              \<and> length (elements (queue s')) = length (elements (queue s)) + length ws))"
  using queue_bounded [OF assms(1-7) _ _ assms(8)] queue_unbounded [OF assms(1-7) _ assms(8)]
  by blast

theorem queue_backpressure_witness:
  "thread (queue_camera 1) = Looping \<and> running (queue_camera 1) \<and> pauseEvent (queue_camera 1)
   \<and> isConnected (queue_camera 1) \<and> \<not> readLock (queue_camera 1)
   \<and> queueModeEnabled (queue_camera 1) \<and> sleeps (queue_camera 1) (delay (queue_camera 1))
   \<and> 0 < maxsize (queue (queue_camera 1))
   \<and> list_all (\<lambda>w. read_ok w \<and> frame_ok (queue_camera 1) w) [delivers 0, delivers 1]
   \<and> (\<exists>s'. runs (queue_camera 1) [delivers 0, delivers 1] = Block WaitQueuePut s' \<and> readLock s'
          \<and> thread s' = InPut \<and> int (length (elements (queue s'))) = 1)
   \<and> maxsize (queue (queue_camera 0)) \<le> 0
   \<and> (\<exists>s'. runs (queue_camera 0) [delivers 0, delivers 1] = Return s'
          \<and> length (elements (queue s')) = 2)"
proof -
  have h: "thread (queue_camera k) = Looping" "running (queue_camera k)"
    "pauseEvent (queue_camera k)" "isConnected (queue_camera k)" "\<not> readLock (queue_camera k)"
    "queueModeEnabled (queue_camera k)"
    "fps (queue_camera k) = None \<or> sleeps (queue_camera k) (delay (queue_camera k))"
    "list_all (\<lambda>w. read_ok w \<and> frame_ok (queue_camera k) w) [delivers 0, delivers 1]"
    "sleeps (queue_camera k) (delay (queue_camera k))"
    "maxsize (queue (queue_camera k)) = k" "elements (queue (queue_camera k)) = []" for k
    by (simp_all add: queue_camera_def running_camera_def test_camera_def sample_lib_def
        isConnected_def read_ok_def frame_ok_def preprocess_def process_def delivers_def
        sleeps_def time_sleep_def)
  note one = queue_backpressure [OF h(1-8), of 1, THEN conjunct1]
  note zero = queue_backpressure [OF h(1-8), of 0, THEN conjunct2]
  have a: "\<exists>s'. runs (queue_camera 1) [delivers 0, delivers 1] = Block WaitQueuePut s'
             \<and> readLock s' \<and> thread s' = InPut \<and> int (length (elements (queue s'))) = 1"
    using one by (simp add: h(10,11))
  have b: "\<exists>s'. runs (queue_camera 0) [delivers 0, delivers 1] = Return s'
             \<and> length (elements (queue s')) = 2"
    using zero by (simp add: h(10,11) numeral_2_eq_2)
  from a b h [of 1] h(10) [of 0] show ?thesis by simp
qed

text \<open>
  C2 as stated fails: with capacity 1 the second acquisition blocks the loop; with
  capacity 0 the queue is unbounded and holds two samples.
\<close>

theorem put_blocks_counterexample:
  "(case runs (queue_camera 1) [delivers 0, delivers 1] of
      Return s \<Rightarrow> False
    | Raise e s \<Rightarrow> False
    | Block w s \<Rightarrow> w = WaitQueuePut \<and> elements (queue s) = [Some (Captured 0)]
        \<and> readLock s \<and> thread s = InPut)
   \<and> (case runs (queue_camera 0) [delivers 0, delivers 1] of
      Return s \<Rightarrow> elements (queue s) = [Some (Captured 0), Some (Captured 1)]
    | Raise e s \<Rightarrow> False
    | Block w s \<Rightarrow> False)"
  by (simp add: queue_camera_def running_camera_def test_camera_def delivers_def sample_lib_def
      step_defs)

subsection \<open>Reconnecting\<close>







section \<open>Stopping a device\<close>

lemma leaves_Return:
  "leaves s = Return s' \<Longrightarrow>
     pauseEvent s' = pauseEvent s \<and> readLock s' = readLock s \<and> \<not> running s'"
  by (auto simp add: leaves_def run_exit_def log_def Let_def split: if_splits option.splits)

lemma tail_keeps:
  "bind (applyDelay u) needAPause = Return v \<Longrightarrow>
     pauseEvent v = pauseEvent u \<and> readLock v = readLock u \<and> running v = running u"
  "bind (applyDelay u) needAPause = Raise e v \<Longrightarrow>
     pauseEvent v = pauseEvent u \<and> readLock v = readLock u \<and> running v = running u"
  by (auto simp add: applyDelay_def sleep_def needAPause_def log_def Let_def
      split: if_splits option.splits)

lemma put_finish_keeps:
  "bind (put s x) finish = Return u \<Longrightarrow>
     pauseEvent u = pauseEvent s \<and> \<not> readLock u \<and> running u = running s"
  by (auto simp add: put_def finish_def log_def Let_def split: if_splits)

lemma put_finish_no_raise: "bind (put s x) finish \<noteq> Raise e u"
  by (auto simp add: put_def finish_def log_def Let_def split: if_splits)

lemma wakes_InPut:
  assumes "thread s = InPut" and "wakes s = r"
  shows "(\<forall>u. r = Return u \<longrightarrow> pauseEvent u = pauseEvent s \<and> \<not> readLock u \<and> running u = running s)
       \<and> (\<forall>e u. r = Raise e u \<longrightarrow> pauseEvent u = pauseEvent s \<and> \<not> readLock u \<and> running u = running s)"
proof (cases "bind (put s (frame s)) finish")
  case (Return u)
  note k = put_finish_keeps [OF Return]
  have r: "r = bind (applyDelay u) needAPause"
    using assms Return by (simp add: wakes_def)
  show ?thesis using tail_keeps [of u] k unfolding r by metis
next
  case (Raise e u)
  then show ?thesis using put_finish_no_raise by blast
next
  case (Block b u)
  then have "r = Block b u" using assms by (simp add: wakes_def)
  then show ?thesis by simp
qed

lemma stop_Return:
  assumes "stop s = Return s'" and "\<And>r. thread s \<noteq> InAcquire r"
  shows "pauseEvent s' \<and> \<not> readLock s' \<and> \<not> running s'"
proof (cases "running s")
  case False
  with assms(1) show ?thesis by (auto simp add: stop_def resume_def Let_def split: if_splits)
next
  case True
  define s2 where "s2 = (if readLock (resume s) then (resume s)\<lparr>readLock := False\<rparr>
                         else resume s)\<lparr>running := False\<rparr>"
  have r2: "running (if readLock (resume s) then (resume s)\<lparr>readLock := False\<rparr> else resume s)"
    using True by (simp add: resume_def)
  have j: "join s2 = Return s'"
    using assms(1) r2 unfolding stop_def Let_def s2_def by simp
  have f: "pauseEvent s2" "\<not> readLock s2" "\<not> running s2" "thread s2 = thread s"
    by (simp_all add: s2_def resume_def)
  show ?thesis
  proof (cases "thread s")
    case NotStarted
    with j f show ?thesis by (simp add: join_def)
  next
    case Spawned
    with j f show ?thesis by (simp add: join_def)
  next
    case Looping
    with j f leaves_Return [of s2 s'] show ?thesis by (simp add: join_def)
  next
    case (InAcquire r)
    with assms(2) [of r] show ?thesis by simp
  next
    case InPut
    then have t: "thread s2 = InPut" using f by simp
    note w = wakes_InPut [OF t refl]
    show ?thesis
    proof (cases "wakes s2")
      case (Return u)
      then have "leaves (u\<lparr>thread := Looping\<rparr>) = Return s'" using j t by (simp add: join_def)
      from leaves_Return [OF this] w Return f show ?thesis by simp
    next
      case (Raise e u)
      then have "s' = u\<lparr>thread := Exited\<rparr>" using j t by (simp add: join_def)
      with w Raise f show ?thesis by simp
    next
      case (Block b u)
      then show ?thesis using j t by (simp add: join_def)
    qed
  next
    case InPauseWait
    then have t: "thread s2 = InPauseWait" using f by simp
    then have "wakes s2 = Return s2" using f by (simp add: wakes_def)
    then have "leaves (s2\<lparr>thread := Looping\<rparr>) = Return s'" using j t by (simp add: join_def)
    from leaves_Return [OF this] f show ?thesis by simp
  next
    case Exited
    with j f show ?thesis by (simp add: join_def)
  qed
qed

lemma stop_settled:
  "pauseEvent s \<Longrightarrow> \<not> readLock s \<Longrightarrow> \<not> running s \<Longrightarrow> stop s = Return s"
  by (simp add: stop_def resume_def)

lemma stop_idempotent:
  assumes "stop s = Return s'" and "\<And>r. thread s \<noteq> InAcquire r"
  shows "stop s' = Return s'"
  using stop_Return [OF assms] by (simp add: stop_settled)

lemma stops_eq_stop:
  assumes "stop s = Return s'" and "\<And>r. thread s \<noteq> InAcquire r"
  shows "stops (Suc n) s = Return s'"
proof -
  have s': "stop s' = Return s'" using assms by (rule stop_idempotent)
  have "stops n s' = Return s'" for n
  proof (induction n)
    case 0
    show ?case by simp
  next
    case (Suc n)
    then show ?case using s' by simp
  qed
  then show ?thesis using assms(1) by simp
qed

lemma stop_running_loop:
  assumes "thread s = Looping" and "running s"
  shows "\<exists>s'. stop s = Return s' \<and> thread s' = Exited \<and> \<not> running s' \<and> \<not> isConnected s'"
  using assms
  by (cases "device s")
     (simp_all add: stop_def join_def leaves_def resume_def run_exit_def log_def Let_def
        isConnected_def)

lemma stop_paused_loop:
  assumes "thread s = InPauseWait" and "running s"
  shows "\<exists>s'. stop s = Return s' \<and> thread s' = Exited \<and> \<not> running s' \<and> \<not> isConnected s'"
  using assms
  by (cases "device s")
     (simp_all add: stop_def join_def leaves_def wakes_def resume_def run_exit_def log_def Let_def
        isConnected_def)

lemma stop_hangs_in_put:
  assumes "thread s = InPut" and "running s" and "full (queue s)"
  shows "\<exists>s'. stop s = Block WaitJoin s' \<and> thread s' = InPut \<and> isConnected s' = isConnected s"
  using assms
  by (simp add: stop_def join_def wakes_def put_def resume_def Let_def isConnected_def)

text \<open>
  C6 fails on the code: \<^verbatim>\<open>stop()\<close> called after \<^verbatim>\<open>start()\<close> has returned and before
  the thread has executed \<^verbatim>\<open>self.running.set()\<close> finds \<^verbatim>\<open>running\<close> unset, so it neither
  clears it nor joins the thread, and returns with nothing changed. The thread then opens
  the handle, sets \<^verbatim>\<open>running\<close> and loops: the device is not stopped and its handle is
  not released. (There is a second way: \<^verbatim>\<open>stop()\<close> does not return while the loop is
  blocked in \<^verbatim>\<open>queue.put\<close> on a full queue, lemma \<open>stop_hangs_in_put\<close>. A loop at its
  test or in the pause wait is stopped, lemmas \<open>stop_running_loop\<close> and
  \<open>stop_paused_loop\<close>, and unless the thread waits for the lock, further calls of
  \<^verbatim>\<open>stop()\<close> change nothing, lemmas \<open>stop_idempotent\<close> and \<open>stops_eq_stop\<close>.)
\<close>

theorem stop_before_loop_entry:
  "start test_camera = Return started_camera
   \<and> stop started_camera = Return started_camera
   \<and> thread started_camera = Spawned
   \<and> run started_camera (delivers 0) = Return running_camera
   \<and> running running_camera \<and> thread running_camera = Looping \<and> isConnected running_camera"
  by (simp add: start_test_camera run_started_camera)
     (simp add: stop_def resume_def started_camera_def test_camera_def running_camera_def
        isConnected_def)

end
